theory Spec2Isabelle
  imports Complex_Main
begin

section \<open>Python floats\<close>

text \<open>
  Every number the calculation of \<^verbatim>\<open>solar_app.py\<close> handles is a Python \<^verbatim>\<open>float\<close>
  (an IEEE 754 binary64 value) or an \<^verbatim>\<open>int\<close> that is converted to one by the first
  arithmetic operation it meets: \<^verbatim>\<open>panel_power\<close> and \<^verbatim>\<open>tariff\<close> are floats
  (\<^verbatim>\<open>number_input\<close> with a float default), \<^verbatim>\<open>monthly_usage\<close> is an int below
  \<open>2^53\<close>, \<^verbatim>\<open>clouds\<close> is a JSON number and \<^verbatim>\<open>temp_c\<close> is the result of a float
  subtraction. A finite float is kept as the rational number it denotes; \<^verbatim>\<open>-0.0\<close> and
  \<^verbatim>\<open>0.0\<close> are one value, since they compare equal and the script never divides by a
  computed value. The int \<^verbatim>\<open>0\<close> that \<^verbatim>\<open>max(0, x)\<close> may return is the value \<open>Fin 0\<close>.
\<close>

datatype pyfloat = Fin rat | PInf | NInf | NaN

text \<open>Rounding a rational to the nearest integer, ties to the even one.\<close>

definition round_half_even :: "rat \<Rightarrow> int" where
  "round_half_even q =
     (let f = \<lfloor>q\<rfloor>; d = q - of_int f
      in if d < 1 / 2 then f
         else if 1 / 2 < d then f + 1
         else if even f then f else f + 1)"

text \<open>
  The exponent of the unit in the last place of \<open>x\<close>: the least \<open>e\<close> from \<open>-1074\<close>
  (the subnormal spacing) with \<open>\<bar>x\<bar> < 2^(e + 53)\<close>, capped at \<open>971\<close> (the spacing of the
  largest binade).
\<close>

fun ulp_exp_from :: "nat \<Rightarrow> int \<Rightarrow> rat \<Rightarrow> int" where
  "ulp_exp_from 0 e x = e"
| "ulp_exp_from (Suc n) e x =
     (if \<bar>x\<bar> < 2 powi (e + 53) then e else ulp_exp_from n (e + 1) x)"

definition ulp_exp :: "rat \<Rightarrow> int" where
  "ulp_exp x = ulp_exp_from 2045 (- 1074) x"

text \<open>Round to nearest, ties to even, with 53 significant bits.\<close>

definition rnd :: "rat \<Rightarrow> rat" where
  "rnd x = of_int (round_half_even (x / 2 powi ulp_exp x)) * 2 powi ulp_exp x"

text \<open>The float an exact result becomes: a result that rounds beyond the largest double
  overflows to an infinity.\<close>

definition fl :: "rat \<Rightarrow> pyfloat" where
  "fl x = (let y = rnd x
           in if 2 ^ 1024 \<le> y then PInf
              else if y \<le> - (2 ^ 1024) then NInf
              else Fin y)"

text \<open>The rationals that are finite doubles.\<close>

definition is_double :: "rat \<Rightarrow> bool" where
  "is_double x \<longleftrightarrow> rnd x = x \<and> \<bar>x\<bar> < 2 ^ 1024"

text \<open>A decimal literal of the source denotes the double nearest to it.\<close>

definition lit :: "rat \<Rightarrow> pyfloat" where
  "lit r = fl r"

text \<open>Python's \<^verbatim>\<open>-\<close> and \<^verbatim>\<open>*\<close> on floats.\<close>

fun py_sub :: "pyfloat \<Rightarrow> pyfloat \<Rightarrow> pyfloat" where
  "py_sub (Fin a) (Fin b) = fl (a - b)"
| "py_sub NaN _ = NaN"
| "py_sub _ NaN = NaN"
| "py_sub PInf PInf = NaN"
| "py_sub NInf NInf = NaN"
| "py_sub PInf _ = PInf"
| "py_sub NInf _ = NInf"
| "py_sub (Fin a) PInf = NInf"
| "py_sub (Fin a) NInf = PInf"

fun py_mul :: "pyfloat \<Rightarrow> pyfloat \<Rightarrow> pyfloat" where
  "py_mul (Fin a) (Fin b) = fl (a * b)"
| "py_mul NaN _ = NaN"
| "py_mul _ NaN = NaN"
| "py_mul PInf (Fin b) = (if 0 < b then PInf else if b < 0 then NInf else NaN)"
| "py_mul NInf (Fin b) = (if 0 < b then NInf else if b < 0 then PInf else NaN)"
| "py_mul (Fin a) PInf = (if 0 < a then PInf else if a < 0 then NInf else NaN)"
| "py_mul (Fin a) NInf = (if 0 < a then NInf else if a < 0 then PInf else NaN)"
| "py_mul PInf PInf = PInf"
| "py_mul PInf NInf = NInf"
| "py_mul NInf PInf = NInf"
| "py_mul NInf NInf = PInf"

text \<open>
  Python's \<^verbatim>\<open>/\<close> by a finite literal other than zero (the script divides by \<^verbatim>\<open>100\<close>
  only, so \<^verbatim>\<open>ZeroDivisionError\<close> cannot be raised).
\<close>

fun py_div :: "pyfloat \<Rightarrow> rat \<Rightarrow> pyfloat" where
  "py_div (Fin a) d = fl (a / d)"
| "py_div PInf d = (if 0 < d then PInf else NInf)"
| "py_div NInf d = (if 0 < d then NInf else PInf)"
| "py_div NaN d = NaN"

text \<open>Python's comparisons: every comparison with \<^verbatim>\<open>nan\<close> is false.\<close>

fun py_lt :: "pyfloat \<Rightarrow> pyfloat \<Rightarrow> bool" where
  "py_lt (Fin a) (Fin b) = (a < b)"
| "py_lt NaN _ = False"
| "py_lt _ NaN = False"
| "py_lt _ NInf = False"
| "py_lt PInf _ = False"
| "py_lt NInf _ = True"
| "py_lt (Fin a) PInf = True"

fun py_le :: "pyfloat \<Rightarrow> pyfloat \<Rightarrow> bool" where
  "py_le (Fin a) (Fin b) = (a \<le> b)"
| "py_le NaN _ = False"
| "py_le _ NaN = False"
| "py_le NInf _ = True"
| "py_le _ PInf = True"
| "py_le PInf _ = False"
| "py_le (Fin a) NInf = False"

definition py_gt :: "pyfloat \<Rightarrow> pyfloat \<Rightarrow> bool" where
  "py_gt a b = py_lt b a"

definition py_ge :: "pyfloat \<Rightarrow> pyfloat \<Rightarrow> bool" where
  "py_ge a b = py_le b a"

text \<open>Python's \<^verbatim>\<open>max(a, b)\<close>: the second argument only when it is greater than the first.\<close>

definition py_max :: "pyfloat \<Rightarrow> pyfloat \<Rightarrow> pyfloat" where
  "py_max a b = (if py_gt b a then b else a)"

section \<open>The calculation of \<^verbatim>\<open>solar_app.py\<close>\<close>

text \<open>The values typed into the form (lines 48 to 54 of the script).\<close>

record user_inputs =
  city :: string
  panel_power :: pyfloat
  monthly_usage :: pyfloat
  tariff :: pyfloat

text \<open>The values read from the weather response (lines 71 to 75).\<close>

record weather =
  clouds :: pyfloat
  temp_c :: pyfloat
  lat :: pyfloat
  lon :: pyfloat

text \<open>The variables the engineering and financial calculations assign (lines 79 to 92).\<close>

record calculations =
  cloud_efficiency :: pyfloat
  heat_loss :: pyfloat
  temp_efficiency :: pyfloat
  actual_power :: pyfloat
  daily_production :: pyfloat
  monthly_production :: pyfloat
  old_bill :: pyfloat
  net_usage :: pyfloat
  new_bill :: pyfloat
  savings :: pyfloat

definition calculate :: "user_inputs \<Rightarrow> weather \<Rightarrow> calculations" where
  "calculate inp w =
     (let cloud_efficiency = py_sub (Fin 1) (py_mul (py_div (clouds w) 100) (lit 0.8));
          heat_loss = py_max (Fin 0) (py_mul (py_sub (temp_c w) (Fin 25)) (lit 0.005));
          temp_efficiency = py_sub (Fin 1) heat_loss;
          actual_power = py_mul (py_mul (panel_power inp) cloud_efficiency) temp_efficiency;
          daily_production = py_mul actual_power (Fin 5);
          monthly_production = py_mul daily_production (Fin 30);
          old_bill = py_mul (monthly_usage inp) (tariff inp);
          net_usage = py_max (Fin 0) (py_sub (monthly_usage inp) monthly_production);
          new_bill = py_mul net_usage (tariff inp);
          savings = py_sub old_bill new_bill
      in \<lparr>cloud_efficiency = cloud_efficiency, heat_loss = heat_loss,
          temp_efficiency = temp_efficiency, actual_power = actual_power,
          daily_production = daily_production, monthly_production = monthly_production,
          old_bill = old_bill, net_usage = net_usage, new_bill = new_bill,
          savings = savings\<rparr>)"

text \<open>The values the form shows before the user changes them (lines 48 to 54).\<close>

definition default_inputs :: user_inputs where
  "default_inputs =
     \<lparr>city = ''London'', panel_power = Fin 5, monthly_usage = Fin 350, tariff = Fin 8\<rparr>"

text \<open>A weather response with a given cloud cover and temperature.\<close>

definition snapshot :: "rat \<Rightarrow> rat \<Rightarrow> weather" where
  "snapshot c t = \<lparr>clouds = Fin c, temp_c = Fin t, lat = Fin 0, lon = Fin 0\<rparr>"

text \<open>A float that is finite and within \<open>eps\<close> of the number \<open>r\<close>.\<close>

fun close_to :: "pyfloat \<Rightarrow> rat \<Rightarrow> rat \<Rightarrow> bool" where
  "close_to (Fin x) r eps = (\<bar>x - r\<bar> \<le> eps)"
| "close_to _ r eps = False"

section \<open>Rounding\<close>

lemma ulp_exp_from_range: "e \<le> ulp_exp_from n e x \<and> ulp_exp_from n e x \<le> e + int n"
proof (induction n arbitrary: e)
  case 0
  show ?case by simp
next
  case (Suc n)
  from Suc [of "e + 1"] show ?case by simp
qed

lemma ulp_exp_from_upper:
  "ulp_exp_from n e x < e + int n \<Longrightarrow> \<bar>x\<bar> < 2 powi (ulp_exp_from n e x + 53)"
proof (induction n arbitrary: e)
  case 0
  then show ?case by simp
next
  case (Suc n)
  show ?case
  proof (cases "\<bar>x\<bar> < 2 powi (e + 53)")
    case True
    then show ?thesis by simp
  next
    case False
    with Suc.prems have "ulp_exp_from n (e + 1) x < e + 1 + int n" by simp
    from Suc.IH [OF this] False show ?thesis by simp
  qed
qed

lemma ulp_exp_from_lower:
  "e < ulp_exp_from n e x \<Longrightarrow> 2 powi (ulp_exp_from n e x + 52) \<le> \<bar>x\<bar>"
proof (induction n arbitrary: e)
  case 0
  then show ?case by simp
next
  case (Suc n)
  show ?case
  proof (cases "\<bar>x\<bar> < 2 powi (e + 53)")
    case True
    with Suc.prems show ?thesis by simp
  next
    case False
    then have r: "ulp_exp_from (Suc n) e x = ulp_exp_from n (e + 1) x" by simp
    show ?thesis
    proof (cases "e + 1 < ulp_exp_from n (e + 1) x")
      case True
      then show ?thesis using Suc.IH [of "e + 1"] r by simp
    next
      case False
      with ulp_exp_from_range [of "e + 1" n x]
      have "ulp_exp_from n (e + 1) x = e + 1" by simp
      with r \<open>\<not> \<bar>x\<bar> < 2 powi (e + 53)\<close> show ?thesis
        by (simp add: add.commute)
    qed
  qed
qed

lemma ulp_exp_range: "- 1074 \<le> ulp_exp x \<and> ulp_exp x \<le> 971"
  using ulp_exp_from_range [of "- 1074" 2045 x] by (simp add: ulp_exp_def)

lemma ulp_exp_upper: "ulp_exp x < 971 \<Longrightarrow> \<bar>x\<bar> < 2 powi (ulp_exp x + 53)"
  using ulp_exp_from_upper [of 2045 "- 1074" x] by (simp add: ulp_exp_def)

lemma ulp_exp_lower: "- 1074 < ulp_exp x \<Longrightarrow> 2 powi (ulp_exp x + 52) \<le> \<bar>x\<bar>"
  using ulp_exp_from_lower [of "- 1074" 2045 x] by (simp add: ulp_exp_def)

lemma two_powi_mono: "m \<le> n \<Longrightarrow> (2::rat) powi m \<le> 2 powi n"
  by (rule power_int_increasing) simp_all

text \<open>The binade of \<open>x\<close> determines the exponent; this is how \<open>rnd\<close> is evaluated
  at a given number.\<close>

lemma ulp_exp_eqI:
  assumes "- 1074 \<le> e" and "e \<le> 971"
    and lo: "e = - 1074 \<or> 2 powi (e + 52) \<le> \<bar>x\<bar>"
    and hi: "\<bar>x\<bar> < 2 powi (e + 53) \<or> e = 971"
  shows "ulp_exp x = e"
proof (rule ccontr)
  assume ne: "ulp_exp x \<noteq> e"
  show False
  proof (cases "ulp_exp x < e")
    case True
    with assms(2) have "\<bar>x\<bar> < 2 powi (ulp_exp x + 53)"
      by (intro ulp_exp_upper) simp
    also have "\<dots> \<le> 2 powi (e + 52)"
      using True by (intro two_powi_mono) simp
    finally have "\<bar>x\<bar> < 2 powi (e + 52)" .
    moreover from True ulp_exp_range [of x] have "e \<noteq> - 1074" by simp
    ultimately show False using lo by simp
  next
    case False
    with ne have gt: "e < ulp_exp x" by simp
    with assms(1) have "2 powi (ulp_exp x + 52) \<le> \<bar>x\<bar>"
      by (intro ulp_exp_lower) simp
    moreover have "2 powi (e + 53) \<le> (2::rat) powi (ulp_exp x + 52)"
      using gt by (intro two_powi_mono) simp
    ultimately have "2 powi (e + 53) \<le> \<bar>x\<bar>" by simp
    moreover from gt ulp_exp_range [of x] have "e \<noteq> 971" by simp
    ultimately show False using hi by simp
  qed
qed

lemma ulp_exp_mono:
  assumes "\<bar>x\<bar> \<le> \<bar>y\<bar>"
  shows "ulp_exp x \<le> ulp_exp y"
proof (rule ccontr)
  assume "\<not> ulp_exp x \<le> ulp_exp y"
  then have gt: "ulp_exp y < ulp_exp x" by simp
  with ulp_exp_range [of x] have "\<bar>y\<bar> < 2 powi (ulp_exp y + 53)"
    by (intro ulp_exp_upper) simp
  also have "\<dots> \<le> 2 powi (ulp_exp x + 52)"
    using gt by (intro two_powi_mono) simp
  also have "\<dots> \<le> \<bar>x\<bar>"
    using gt ulp_exp_range [of y] by (intro ulp_exp_lower) simp
  finally show False using assms by simp
qed

lemma round_half_even_of_int: "round_half_even (of_int n) = n"
  by (simp add: round_half_even_def)

lemma round_half_even_bounds:
  "\<lfloor>q\<rfloor> \<le> round_half_even q \<and> round_half_even q \<le> \<lfloor>q\<rfloor> + 1"
  by (simp add: round_half_even_def Let_def)

lemma round_half_even_mono:
  assumes "p \<le> q"
  shows "round_half_even p \<le> round_half_even q"
proof (cases "\<lfloor>p\<rfloor> = \<lfloor>q\<rfloor>")
  case True
  with assms show ?thesis
    by (auto simp: round_half_even_def Let_def)
next
  case False
  with assms have "\<lfloor>p\<rfloor> + 1 \<le> \<lfloor>q\<rfloor>"
    using floor_mono [of p q] by simp
  with round_half_even_bounds [of p] round_half_even_bounds [of q]
  show ?thesis by linarith
qed

lemma two_powi_53: "(2::rat) powi (e + 53) = of_int (2 ^ 53) * 2 powi e"
  by (simp add: power_int_add)

lemma two_powi_52: "(2::rat) powi (e + 52) = of_int (2 ^ 52) * 2 powi e"
  by (simp add: power_int_add)

lemma rnd_eval:
  assumes "- 1074 \<le> e" and "e \<le> 971"
    and "e = - 1074 \<or> 2 powi (e + 52) \<le> \<bar>x\<bar>"
    and "\<bar>x\<bar> < 2 powi (e + 53) \<or> e = 971"
  shows "rnd x = of_int (round_half_even (x / 2 powi e)) * 2 powi e"
  by (simp add: rnd_def ulp_exp_eqI [OF assms])

lemma rnd_le_grid:
  assumes "x \<le> of_int n * 2 powi ulp_exp x"
  shows "rnd x \<le> of_int n * 2 powi ulp_exp x"
proof -
  have "x / 2 powi ulp_exp x \<le> of_int n"
    using assms by (simp add: pos_divide_le_eq)
  then have "round_half_even (x / 2 powi ulp_exp x) \<le> n"
    using round_half_even_mono [of "x / 2 powi ulp_exp x" "of_int n"]
    by (simp add: round_half_even_of_int)
  then have "(of_int (round_half_even (x / 2 powi ulp_exp x)) :: rat) \<le> of_int n"
    by simp
  then show ?thesis
    unfolding rnd_def by (intro mult_right_mono) simp_all
qed

lemma rnd_ge_grid:
  assumes "of_int n * 2 powi ulp_exp x \<le> x"
  shows "of_int n * 2 powi ulp_exp x \<le> rnd x"
proof -
  have "of_int n \<le> x / 2 powi ulp_exp x"
    using assms by (simp add: pos_le_divide_eq)
  then have "n \<le> round_half_even (x / 2 powi ulp_exp x)"
    using round_half_even_mono [of "of_int n" "x / 2 powi ulp_exp x"]
    by (simp add: round_half_even_of_int)
  then have "(of_int n :: rat) \<le> of_int (round_half_even (x / 2 powi ulp_exp x))"
    by simp
  then show ?thesis
    unfolding rnd_def by (intro mult_right_mono) simp_all
qed

lemma rnd_nonneg: "0 \<le> x \<Longrightarrow> 0 \<le> rnd x"
  using rnd_ge_grid [of 0 x] by simp

lemma rnd_nonpos: "x \<le> 0 \<Longrightarrow> rnd x \<le> 0"
  using rnd_le_grid [of x 0] by simp

lemma rnd_zero: "rnd 0 = 0"
  using rnd_nonneg [of 0] rnd_nonpos [of 0] by simp

lemma rnd_same_exp:
  assumes "x \<le> y" and "ulp_exp x = ulp_exp y"
  shows "rnd x \<le> rnd y"
proof -
  have "x / 2 powi ulp_exp y \<le> y / 2 powi ulp_exp y"
    using assms(1) by (simp add: divide_right_mono)
  then have "(of_int (round_half_even (x / 2 powi ulp_exp y)) :: rat)
      \<le> of_int (round_half_even (y / 2 powi ulp_exp y))"
    using round_half_even_mono by simp
  then show ?thesis
    unfolding rnd_def assms(2) by (intro mult_right_mono) simp_all
qed

text \<open>Rounding to nearest is monotone.\<close>

lemma rnd_mono:
  assumes "x \<le> y"
  shows "rnd x \<le> rnd y"
proof -
  consider "ulp_exp x = ulp_exp y" | "ulp_exp x < ulp_exp y" | "ulp_exp y < ulp_exp x"
    by linarith
  then show ?thesis
  proof cases
    case 1
    with assms show ?thesis by (rule rnd_same_exp)
  next
    case 2
    with ulp_exp_range [of y] have "\<bar>x\<bar> < 2 powi (ulp_exp x + 53)"
      by (intro ulp_exp_upper) simp
    moreover have le: "(2::rat) powi (ulp_exp x + 53) \<le> 2 powi (ulp_exp y + 52)"
      using 2 by (intro two_powi_mono) simp
    moreover have "2 powi (ulp_exp y + 52) \<le> \<bar>y\<bar>"
      using 2 ulp_exp_range [of x] by (intro ulp_exp_lower) simp
    ultimately have xs: "x \<le> 2 powi (ulp_exp x + 53)" and ys: "2 powi (ulp_exp y + 52) \<le> y"
      using assms by linarith+
    have "rnd x \<le> 2 powi (ulp_exp x + 53)"
      using rnd_le_grid [of x "2 ^ 53"] xs unfolding two_powi_53 by simp
    moreover have "2 powi (ulp_exp y + 52) \<le> rnd y"
      using rnd_ge_grid [of "2 ^ 52" y] ys unfolding two_powi_52 by simp
    ultimately show ?thesis using le by linarith
  next
    case 3
    with ulp_exp_range [of x] have "\<bar>y\<bar> < 2 powi (ulp_exp y + 53)"
      by (intro ulp_exp_upper) simp
    moreover have le: "(2::rat) powi (ulp_exp y + 53) \<le> 2 powi (ulp_exp x + 52)"
      using 3 by (intro two_powi_mono) simp
    moreover have "2 powi (ulp_exp x + 52) \<le> \<bar>x\<bar>"
      using 3 ulp_exp_range [of y] by (intro ulp_exp_lower) simp
    ultimately have xs: "x \<le> - (2 powi (ulp_exp x + 52))" and ys: "- (2 powi (ulp_exp y + 53)) \<le> y"
      using assms by linarith+
    have "rnd x \<le> - (2 powi (ulp_exp x + 52))"
      using rnd_le_grid [of x "- (2 ^ 52)"] xs unfolding two_powi_52 by simp
    moreover have "- (2 powi (ulp_exp y + 53)) \<le> rnd y"
      using rnd_ge_grid [of "- (2 ^ 53)" y] ys unfolding two_powi_53 by simp
    ultimately show ?thesis using le by linarith
  qed
qed

lemma floor_rat_numeral_div [simp]:
  "\<lfloor>(numeral a :: rat) / numeral b\<rfloor> = numeral a div numeral b"
  by (metis floor_divide_of_int_eq of_int_numeral)

lemma floor_rat_neg_numeral_div [simp]:
  "\<lfloor>- ((numeral a :: rat) / numeral b)\<rfloor> = - numeral a div numeral b"
  by (metis divide_minus_left floor_divide_of_int_eq of_int_minus of_int_numeral)

section \<open>Floats and the variables of the calculation\<close>

lemma fl_double: "is_double x \<Longrightarrow> fl x = Fin x"
  by (auto simp: fl_def is_double_def Let_def)

lemma fl_zero: "fl 0 = Fin 0"
  by (simp add: fl_def rnd_zero)

lemma rnd_one: "rnd 1 = 1"
  by (simp add: rnd_eval [of "- 52"] round_half_even_def Let_def)

lemma fl_one: "fl 1 = Fin 1"
  by (simp add: fl_def rnd_one)

lemma lit_0_8: "lit 0.8 = Fin (3602879701896397 / 4503599627370496)"
  by (simp add: lit_def fl_def rnd_eval [of "- 53"] round_half_even_def Let_def)

lemma lit_0_005: "lit 0.005 = Fin (5764607523034235 / 1152921504606846976)"
  by (simp add: lit_def fl_def rnd_eval [of "- 60"] round_half_even_def Let_def)

lemma lit_4_5: "lit (4 / 5) = Fin (3602879701896397 / 4503599627370496)"
  using lit_0_8 by simp

lemma lit_1_200: "lit (1 / 200) = Fin (5764607523034235 / 1152921504606846976)"
  using lit_0_005 by simp

lemma fl_nonpos: "x \<le> 0 \<Longrightarrow> py_le (fl x) (Fin 0)"
  using rnd_nonpos [of x] by (simp add: fl_def Let_def)

lemma fl_nonneg: "0 \<le> x \<Longrightarrow> py_le (Fin 0) (fl x)"
  using rnd_nonneg [of x] by (simp add: fl_def Let_def)

lemma py_sub_le_zero: "py_le a (Fin b) \<Longrightarrow> py_le (py_sub a (Fin b)) (Fin 0)"
  by (cases a) (simp_all add: fl_nonpos)

lemma py_mul_pos_le_zero: "py_le a (Fin 0) \<Longrightarrow> 0 < c \<Longrightarrow> py_le (py_mul a (Fin c)) (Fin 0)"
  by (cases a) (simp_all add: fl_nonpos mult_nonpos_nonneg)

lemma py_max_zero: "py_le a (Fin 0) \<Longrightarrow> py_max (Fin 0) a = Fin 0"
  by (cases a) (simp_all add: py_max_def py_gt_def)

lemma cloud_efficiency_calculate:
  "cloud_efficiency (calculate inp w) = py_sub (Fin 1) (py_mul (py_div (clouds w) 100) (lit 0.8))"
  by (simp add: calculate_def Let_def)

lemma heat_loss_calculate:
  "heat_loss (calculate inp w) = py_max (Fin 0) (py_mul (py_sub (temp_c w) (Fin 25)) (lit 0.005))"
  by (simp add: calculate_def Let_def)

lemma temp_efficiency_calculate:
  "temp_efficiency (calculate inp w) = py_sub (Fin 1) (heat_loss (calculate inp w))"
  by (simp add: calculate_def Let_def)

lemma actual_power_calculate:
  "actual_power (calculate inp w) =
     py_mul (py_mul (panel_power inp) (cloud_efficiency (calculate inp w)))
       (temp_efficiency (calculate inp w))"
  by (simp add: calculate_def Let_def)

lemma daily_production_calculate:
  "daily_production (calculate inp w) = py_mul (actual_power (calculate inp w)) (Fin 5)"
  by (simp add: calculate_def Let_def)

lemma monthly_production_calculate:
  "monthly_production (calculate inp w) = py_mul (daily_production (calculate inp w)) (Fin 30)"
  by (simp add: calculate_def Let_def)

lemma old_bill_calculate:
  "old_bill (calculate inp w) = py_mul (monthly_usage inp) (tariff inp)"
  by (simp add: calculate_def Let_def)

lemma net_usage_calculate:
  "net_usage (calculate inp w) =
     py_max (Fin 0) (py_sub (monthly_usage inp) (monthly_production (calculate inp w)))"
  by (simp add: calculate_def Let_def)

lemma new_bill_calculate:
  "new_bill (calculate inp w) = py_mul (net_usage (calculate inp w)) (tariff inp)"
  by (simp add: calculate_def Let_def)

lemma savings_calculate:
  "savings (calculate inp w) = py_sub (old_bill (calculate inp w)) (new_bill (calculate inp w))"
  by (simp add: calculate_def Let_def)

lemma heat_loss_cool:
  assumes "py_le (temp_c w) (Fin 25)"
  shows "heat_loss (calculate inp w) = Fin 0"
proof -
  have "py_le (py_sub (temp_c w) (Fin 25)) (Fin 0)"
    using assms by (rule py_sub_le_zero)
  then have "py_le (py_mul (py_sub (temp_c w) (Fin 25)) (lit 0.005)) (Fin 0)"
    unfolding lit_0_005 by (rule py_mul_pos_le_zero) simp
  then show ?thesis
    unfolding heat_loss_calculate by (rule py_max_zero)
qed

lemma is_double_5: "is_double 5"
  by (simp add: is_double_def rnd_eval [of "- 50"] round_half_even_def Let_def)

section \<open>Values of individual roundings\<close>

lemma fl_val_1: "fl 1 = Fin 1"
  by (simp add: fl_def rnd_eval [of "- 52"] round_half_even_def Let_def)

lemma fl_val_2: "fl (4 / 5) = Fin (3602879701896397 / 4503599627370496)"
  by (simp add: fl_def rnd_eval [of "- 53"] round_half_even_def Let_def)

lemma fl_val_3: "fl (3602879701896397 / 4503599627370496) = Fin (3602879701896397 / 4503599627370496)"
  by (simp add: fl_def rnd_eval [of "- 53"] round_half_even_def Let_def)

lemma fl_val_4: "fl (900719925474099 / 4503599627370496) = Fin (900719925474099 / 4503599627370496)"
  by (simp add: fl_def rnd_eval [of "- 55"] round_half_even_def Let_def)

lemma fl_val_5: "fl 0 = Fin 0"
  by (simp add: fl_def rnd_eval [of "- 1074"] round_half_even_def Let_def)

lemma fl_val_6: "fl (1 / 200) = Fin (5764607523034235 / 1152921504606846976)"
  by (simp add: fl_def rnd_eval [of "- 60"] round_half_even_def Let_def)

lemma fl_val_7: "fl (4503599627370495 / 4503599627370496) = Fin (4503599627370495 / 4503599627370496)"
  by (simp add: fl_def rnd_eval [of "- 53"] round_half_even_def Let_def)

lemma fl_val_8: "fl (22517998136852475 / 4503599627370496) = Fin (5629499534213119 / 1125899906842624)"
  by (simp add: fl_def rnd_eval [of "- 50"] round_half_even_def Let_def)

lemma fl_val_9: "fl (84442493013196785 / 562949953421312) = Fin (5277655813324799 / 35184372088832)"
  by (simp add: fl_def rnd_eval [of "- 45"] round_half_even_def Let_def)

lemma fl_val_10: "fl 2800 = Fin 2800"
  by (simp add: fl_def rnd_eval [of "- 41"] round_half_even_def Let_def)

lemma fl_val_11: "fl (7036874417766401 / 35184372088832) = Fin (7036874417766401 / 35184372088832)"
  by (simp add: fl_def rnd_eval [of "- 45"] round_half_even_def Let_def)

lemma fl_val_12: "fl (7036874417766401 / 4398046511104) = Fin (7036874417766401 / 4398046511104)"
  by (simp add: fl_def rnd_eval [of "- 42"] round_half_even_def Let_def)

lemma fl_val_13: "fl (5277655813324799 / 4398046511104) = Fin (5277655813324799 / 4398046511104)"
  by (simp add: fl_def rnd_eval [of "- 42"] round_half_even_def Let_def)

lemma fl_val_14: "fl 5 = Fin 5"
  by (simp add: fl_def rnd_eval [of "- 50"] round_half_even_def Let_def)

lemma fl_val_15: "fl 25 = Fin 25"
  by (simp add: fl_def rnd_eval [of "- 48"] round_half_even_def Let_def)

lemma fl_val_16: "fl 750 = Fin 750"
  by (simp add: fl_def rnd_eval [of "- 43"] round_half_even_def Let_def)

lemma fl_val_17: "fl (- 400) = Fin (- 400)"
  by (simp add: fl_def rnd_eval [of "- 44"] round_half_even_def Let_def)

lemma fl_val_18: "fl (1 / 100) = Fin (5764607523034235 / 576460752303423488)"
  by (simp add: fl_def rnd_eval [of "- 59"] round_half_even_def Let_def)

lemma fl_val_19: "fl (20769187434139312099389054151295 / 2596148429267413814265248164610048) = Fin (1152921504606847 / 144115188075855872)"
  by (simp add: fl_def rnd_eval [of "- 59"] round_half_even_def Let_def)

lemma fl_val_20: "fl (142962266571249025 / 144115188075855872) = Fin (1116892707587883 / 1125899906842624)"
  by (simp add: fl_def rnd_eval [of "- 53"] round_half_even_def Let_def)

lemma fl_val_21: "fl (5584463537939415 / 1125899906842624) = Fin (5584463537939415 / 1125899906842624)"
  by (simp add: fl_def rnd_eval [of "- 50"] round_half_even_def Let_def)

lemma fl_val_22: "fl (28823037615171175 / 1152921504606846976) = Fin (3602879701896397 / 144115188075855872)"
  by (simp add: fl_def rnd_eval [of "- 58"] round_half_even_def Let_def)

lemma fl_val_23: "fl (140512308373959475 / 144115188075855872) = Fin (8782019273372467 / 9007199254740992)"
  by (simp add: fl_def rnd_eval [of "- 53"] round_half_even_def Let_def)

lemma fl_val_24: "fl (49042866421629737616930975086805 / 10141204801825835211973625643008) = Fin (2722425974745465 / 562949953421312)"
  by (simp add: fl_def rnd_eval [of "- 50"] round_half_even_def Let_def)

lemma fl_val_25: "fl (13612129873727325 / 562949953421312) = Fin (3403032468431831 / 140737488355328)"
  by (simp add: fl_def rnd_eval [of "- 48"] round_half_even_def Let_def)

lemma fl_val_26: "fl (51045487026477465 / 70368744177664) = Fin (6380685878309683 / 8796093022208)"
  by (simp add: fl_def rnd_eval [of "- 43"] round_half_even_def Let_def)

lemma fl_val_27: "fl 275 = Fin 275"
  by (simp add: fl_def rnd_eval [of "- 44"] round_half_even_def Let_def)

lemma fl_val_28: "fl (1585267068834414625 / 1152921504606846976) = Fin (11 / 8)"
  by (simp add: fl_def rnd_eval [of "- 52"] round_half_even_def Let_def)

lemma fl_val_29: "fl (- (3 / 8)) = Fin (- (3 / 8))"
  by (simp add: fl_def rnd_eval [of "- 54"] round_half_even_def Let_def)

lemma fl_val_30: "fl (- (15 / 8)) = Fin (- (15 / 8))"
  by (simp add: fl_def rnd_eval [of "- 52"] round_half_even_def Let_def)

lemma fl_val_31: "fl (1 / 2) = Fin (1 / 2)"
  by (simp add: fl_def rnd_eval [of "- 53"] round_half_even_def Let_def)

lemma fl_val_32: "fl (3602879701896397 / 9007199254740992) = Fin (3602879701896397 / 9007199254740992)"
  by (simp add: fl_def rnd_eval [of "- 54"] round_half_even_def Let_def)

lemma fl_val_33: "fl (5404319552844595 / 9007199254740992) = Fin (5404319552844595 / 9007199254740992)"
  by (simp add: fl_def rnd_eval [of "- 53"] round_half_even_def Let_def)

lemma fl_val_34: "fl (27021597764222975 / 9007199254740992) = Fin 3"
  by (simp add: fl_def rnd_eval [of "- 51"] round_half_even_def Let_def)

lemma fl_val_35: "fl (- (9 / 8)) = Fin (- (9 / 8))"
  by (simp add: fl_def rnd_eval [of "- 52"] round_half_even_def Let_def)

lemma fl_val_36: "fl (1 / 115292150460684697600) = Fin (5764607523034235 / 664613997892457936451903530140172288)"
  by (simp add: fl_def rnd_eval [of "- 119"] round_half_even_def Let_def)

lemma fl_val_37: "fl (20769187434139312099389054151295 / 2993155353253689176481146537402947624255349848014848) = Fin (1152921504606847 / 166153499473114484112975882535043072)"
  by (simp add: fl_def rnd_eval [of "- 119"] round_half_even_def Let_def)

lemma fl_val_38: "fl (166153499473114484111822961030436225 / 166153499473114484112975882535043072) = Fin 1"
  by (simp add: fl_def rnd_eval [of "- 53"] round_half_even_def Let_def)

lemma fl_val_39: "fl (5764607523034235 / 1152921504606846976) = Fin (5764607523034235 / 1152921504606846976)"
  by (simp add: fl_def rnd_eval [of "- 60"] round_half_even_def Let_def)

lemma fl_val_40: "fl (1147156897083812741 / 1152921504606846976) = Fin (8962163258467287 / 9007199254740992)"
  by (simp add: fl_def rnd_eval [of "- 53"] round_half_even_def Let_def)

lemma fl_val_41: "fl (44810816292336435 / 9007199254740992) = Fin (2800676018271027 / 562949953421312)"
  by (simp add: fl_def rnd_eval [of "- 50"] round_half_even_def Let_def)

lemma fl_val_42: "fl (281474976710657 / 281474976710656) = Fin (281474976710657 / 281474976710656)"
  by (simp add: fl_def rnd_eval [of "- 52"] round_half_even_def Let_def)

lemma fl_val_43: "fl (1622592768292139432300300342395 / 324518553658426726783156020576256) = Fin (5764607523034255 / 1152921504606846976)"
  by (simp add: fl_def rnd_eval [of "- 60"] round_half_even_def Let_def)

lemma fl_val_44: "fl (1147156897083812721 / 1152921504606846976) = Fin (8962163258467287 / 9007199254740992)"
  by (simp add: fl_def rnd_eval [of "- 53"] round_half_even_def Let_def)

lemma fl_val_45: "fl 200 = Fin 200"
  by (simp add: fl_def rnd_eval [of "- 45"] round_half_even_def Let_def)

lemma fl_val_46: "fl (144115188075855875 / 144115188075855872) = Fin 1"
  by (simp add: fl_def rnd_eval [of "- 52"] round_half_even_def Let_def)

lemma fl_val_47: "fl (8796093022208001 / 7036874417766400) = Fin (5629499534213121 / 4503599627370496)"
  by (simp add: fl_def rnd_eval [of "- 52"] round_half_even_def Let_def)

lemma fl_val_48: "fl (20282409603651675152726860025037 / 20282409603651670423947251286016) = Fin (4503599627370497 / 4503599627370496)"
  by (simp add: fl_def rnd_eval [of "- 52"] round_half_even_def Let_def)

lemma fl_val_49: "fl (- (1 / 4503599627370496)) = Fin (- (1 / 4503599627370496))"
  by (simp add: fl_def rnd_eval [of "- 104"] round_half_even_def Let_def)

lemma fl_val_50: "fl (8796093022207999 / 7036874417766400) = Fin (5629499534213119 / 4503599627370496)"
  by (simp add: fl_def rnd_eval [of "- 52"] round_half_even_def Let_def)

lemma fl_val_51: "fl (20282409603651667946967456232243 / 20282409603651670423947251286016) = Fin (9007199254740991 / 9007199254740992)"
  by (simp add: fl_def rnd_eval [of "- 53"] round_half_even_def Let_def)

lemma fl_val_52: "fl (1 / 9007199254740992) = Fin (1 / 9007199254740992)"
  by (simp add: fl_def rnd_eval [of "- 105"] round_half_even_def Let_def)

lemma fl_val_53: "fl (40564819207303347456926955738235 / 40564819207303340847894502572032) = Fin (4503599627370497 / 4503599627370496)"
  by (simp add: fl_def rnd_eval [of "- 52"] round_half_even_def Let_def)

lemma fl_val_54: "fl (7036874417766399 / 35184372088832) = Fin (7036874417766399 / 35184372088832)"
  by (simp add: fl_def rnd_eval [of "- 45"] round_half_even_def Let_def)

lemma fl_val_55: "fl (40564819207303335927711909669765 / 40564819207303340847894502572032) = Fin (9007199254740991 / 9007199254740992)"
  by (simp add: fl_def rnd_eval [of "- 53"] round_half_even_def Let_def)

lemma fl_val_56: "fl 2 = Fin 2"
  by (simp add: fl_def rnd_eval [of "- 51"] round_half_even_def Let_def)

lemma fl_val_57: "fl (3602879701896397 / 2251799813685248) = Fin (3602879701896397 / 2251799813685248)"
  by (simp add: fl_def rnd_eval [of "- 52"] round_half_even_def Let_def)

lemma fl_val_58: "fl (- (1351079888211149 / 2251799813685248)) = Fin (- (1351079888211149 / 2251799813685248))"
  by (simp add: fl_def rnd_eval [of "- 53"] round_half_even_def Let_def)

lemma fl_val_59: "fl (- (6755399441055745 / 2251799813685248)) = Fin (- (6755399441055745 / 2251799813685248))"
  by (simp add: fl_def rnd_eval [of "- 51"] round_half_even_def Let_def)

lemma fl_val_60: "fl (20266198323167235 / 18014398509481984) = Fin (5066549580791809 / 4503599627370496)"
  by (simp add: fl_def rnd_eval [of "- 52"] round_half_even_def Let_def)

lemma fl_val_61: "fl (13 / 10) = Fin (5854679515581645 / 4503599627370496)"
  by (simp add: fl_def rnd_eval [of "- 52"] round_half_even_def Let_def)

lemma fl_val_62: "fl (21093705987797739132416984833065 / 20282409603651670423947251286016) = Fin (1170935903116329 / 1125899906842624)"
  by (simp add: fl_def rnd_eval [of "- 52"] round_half_even_def Let_def)

lemma fl_val_63: "fl (- (45035996273705 / 1125899906842624)) = Fin (- (45035996273705 / 1125899906842624))"
  by (simp add: fl_def rnd_eval [of "- 57"] round_half_even_def Let_def)

lemma fl_val_64: "fl (204181948105909875 / 281474976710656) = Fin (1595171469577421 / 2199023255552)"
  by (simp add: fl_def rnd_eval [of "- 43"] round_half_even_def Let_def)

lemma fl_val_65: "fl (1 / 5) = Fin (3602879701896397 / 18014398509481984)"
  by (simp add: fl_def rnd_eval [of "- 55"] round_half_even_def Let_def)

lemma fl_val_66: "fl 9007199254740995 = Fin 9007199254740996"
  by (simp add: fl_def rnd_eval [of "1"] round_half_even_def Let_def)

lemma fl_val_67: "fl (12980742146337075106149741499515 / 288230376151711744) = Fin (2882303761517119 / 64)"
  by (simp add: fl_def rnd_eval [of "- 7"] round_half_even_def Let_def)

lemma fl_val_68: "fl (- (2882303761517055 / 64)) = Fin (- (2882303761517055 / 64))"
  by (simp add: fl_def rnd_eval [of "- 7"] round_half_even_def Let_def)

lemma fl_val_69: "fl (- (14411518807585275 / 64)) = Fin (- (3602879701896319 / 16))"
  by (simp add: fl_def rnd_eval [of "- 5"] round_half_even_def Let_def)

lemma fl_val_70: "fl 9007199254740997 = Fin 9007199254740996"
  by (simp add: fl_def rnd_eval [of "1"] round_half_even_def Let_def)

lemmas fl_vals = fl_val_1 fl_val_2 fl_val_3 fl_val_4 fl_val_5 fl_val_6 fl_val_7 fl_val_8
  fl_val_9 fl_val_10 fl_val_11 fl_val_12 fl_val_13 fl_val_14 fl_val_15 fl_val_16 fl_val_17
  fl_val_18 fl_val_19 fl_val_20 fl_val_21 fl_val_22 fl_val_23 fl_val_24 fl_val_25 fl_val_26
  fl_val_27 fl_val_28 fl_val_29 fl_val_30 fl_val_31 fl_val_32 fl_val_33 fl_val_34 fl_val_35
  fl_val_36 fl_val_37 fl_val_38 fl_val_39 fl_val_40 fl_val_41 fl_val_42 fl_val_43 fl_val_44
  fl_val_45 fl_val_46 fl_val_47 fl_val_48 fl_val_49 fl_val_50 fl_val_51 fl_val_52 fl_val_53
  fl_val_54 fl_val_55 fl_val_56 fl_val_57 fl_val_58 fl_val_59 fl_val_60 fl_val_61 fl_val_62
  fl_val_63 fl_val_64 fl_val_65 fl_val_66 fl_val_67 fl_val_68 fl_val_69 fl_val_70

section \<open>Order\<close>

lemma fl_not_nan [simp]: "fl x \<noteq> NaN"
  by (simp add: fl_def Let_def)

lemma py_le_fl_PInf [simp]: "py_le (fl x) PInf"
  by (cases "fl x") simp_all

lemma py_le_NInf_fl [simp]: "py_le NInf (fl x)"
  by (cases "fl x") simp_all

lemma fl_mono: "x \<le> y \<Longrightarrow> py_le (fl x) (fl y)"
  using rnd_mono [of x y] by (auto simp: fl_def Let_def)

lemma py_le_trans: "py_le a b \<Longrightarrow> py_le b c \<Longrightarrow> py_le a c"
  by (cases a; cases b; cases c) simp_all

lemma py_le_Fin_cases:
  assumes "py_le (Fin a) x" and "py_le x (Fin b)"
  obtains y where "x = Fin y" and "a \<le> y" and "y \<le> b"
  using assms by (cases x) simp_all

lemma py_div_mono: "py_le a b \<Longrightarrow> 0 < d \<Longrightarrow> py_le (py_div a d) (py_div b d)"
  by (cases a; cases b) (simp_all add: fl_mono divide_right_mono)

lemma py_mul_right_mono:
  "py_le a b \<Longrightarrow> 0 < c \<Longrightarrow> py_le (py_mul a (Fin c)) (py_mul b (Fin c))"
  by (cases a; cases b) (simp_all add: fl_mono mult_right_mono)

lemma py_mul_left_mono:
  "py_le a b \<Longrightarrow> 0 < c \<Longrightarrow> py_le (py_mul (Fin c) a) (py_mul (Fin c) b)"
  by (cases a; cases b) (simp_all add: fl_mono mult_left_mono)

lemma py_sub_left_antimono: "py_le a b \<Longrightarrow> py_le (py_sub (Fin c) b) (py_sub (Fin c) a)"
  by (cases a; cases b) (simp_all add: fl_mono)

lemma py_sub_right_mono: "py_le a b \<Longrightarrow> py_le (py_sub a (Fin c)) (py_sub b (Fin c))"
  by (cases a; cases b) (simp_all add: fl_mono)

lemma py_max_mono: "py_le a b \<Longrightarrow> py_le (py_max (Fin 0) a) (py_max (Fin 0) b)"
  by (cases a; cases b) (auto simp: py_max_def py_gt_def)

lemma py_max_nonneg: "py_le (Fin 0) (py_max (Fin 0) a)"
  by (cases a) (simp_all add: py_max_def py_gt_def)

section \<open>The efficiencies are monotone in the weather\<close>

lemma cloud_efficiency_antimono:
  assumes "py_le (clouds w) (clouds w')"
  shows "py_le (cloud_efficiency (calculate inp' w')) (cloud_efficiency (calculate inp w))"
proof -
  have "py_le (py_div (clouds w) 100) (py_div (clouds w') 100)"
    using assms by (rule py_div_mono) simp
  then have "py_le (py_mul (py_div (clouds w) 100) (lit 0.8))
      (py_mul (py_div (clouds w') 100) (lit 0.8))"
    unfolding lit_0_8 by (rule py_mul_right_mono) simp
  then show ?thesis
    unfolding cloud_efficiency_calculate by (rule py_sub_left_antimono)
qed

lemma heat_loss_mono:
  assumes "py_le (temp_c w) (temp_c w')"
  shows "py_le (heat_loss (calculate inp w)) (heat_loss (calculate inp' w'))"
proof -
  have "py_le (py_sub (temp_c w) (Fin 25)) (py_sub (temp_c w') (Fin 25))"
    using assms by (rule py_sub_right_mono)
  then have "py_le (py_mul (py_sub (temp_c w) (Fin 25)) (lit 0.005))
      (py_mul (py_sub (temp_c w') (Fin 25)) (lit 0.005))"
    unfolding lit_0_005 by (rule py_mul_right_mono) simp
  then show ?thesis
    unfolding heat_loss_calculate by (rule py_max_mono)
qed

lemma temp_efficiency_antimono:
  assumes "py_le (temp_c w) (temp_c w')"
  shows "py_le (temp_efficiency (calculate inp' w')) (temp_efficiency (calculate inp w))"
  unfolding temp_efficiency_calculate
  by (rule py_sub_left_antimono) (rule heat_loss_mono [OF assms])

lemma snapshot_simps [simp]: "clouds (snapshot c t) = Fin c" "temp_c (snapshot c t) = Fin t"
  by (simp_all add: snapshot_def)

lemma cloud_efficiency_0: "cloud_efficiency (calculate inp (snapshot 0 t)) = Fin 1"
  by (simp add: cloud_efficiency_calculate lit_def fl_vals)

lemma cloud_efficiency_100:
  "cloud_efficiency (calculate inp (snapshot 100 t)) = Fin (900719925474099 / 4503599627370496)"
  by (simp add: cloud_efficiency_calculate lit_def fl_vals)

lemma temp_efficiency_225: "temp_efficiency (calculate inp (snapshot c 225)) = Fin 0"
  by (simp add: temp_efficiency_calculate heat_loss_calculate lit_def py_max_def py_gt_def fl_vals)

lemma cloud_efficiency_range:
  assumes "clouds w = Fin c" and "0 \<le> c" and "c \<le> 100"
  shows "py_le (Fin (900719925474099 / 4503599627370496)) (cloud_efficiency (calculate inp w))"
    and "py_le (cloud_efficiency (calculate inp w)) (Fin 1)"
proof -
  have "py_le (clouds w) (clouds (snapshot 100 0))"
    using assms by simp
  from cloud_efficiency_antimono [OF this, of inp inp]
  show "py_le (Fin (900719925474099 / 4503599627370496)) (cloud_efficiency (calculate inp w))"
    by (simp add: cloud_efficiency_100)
  have "py_le (clouds (snapshot 0 0)) (clouds w)"
    using assms by simp
  from cloud_efficiency_antimono [OF this, of inp inp]
  show "py_le (cloud_efficiency (calculate inp w)) (Fin 1)"
    by (simp add: cloud_efficiency_0)
qed

lemma temp_efficiency_le_1: "py_le (temp_efficiency (calculate inp w)) (Fin 1)"
proof -
  have "py_le (Fin 0) (heat_loss (calculate inp w))"
    unfolding heat_loss_calculate by (rule py_max_nonneg)
  from py_sub_left_antimono [OF this, of 1] show ?thesis
    by (simp add: temp_efficiency_calculate fl_one)
qed

lemma temp_efficiency_nonneg:
  assumes "py_le (temp_c w) (Fin 225)"
  shows "py_le (Fin 0) (temp_efficiency (calculate inp w))"
proof -
  have "py_le (temp_c w) (temp_c (snapshot 0 225))"
    using assms by simp
  from temp_efficiency_antimono [OF this, of inp inp] show ?thesis
    by (simp add: temp_efficiency_225)
qed

text \<open>The power before the thermal derating, on a valid cloud cover.\<close>

lemma clouded_power_range:
  assumes "is_double p" and "0 \<le> p" and "clouds w = Fin c" and "0 \<le> c" and "c \<le> 100"
  obtains x where "py_mul (Fin p) (cloud_efficiency (calculate inp w)) = Fin x"
    and "0 \<le> x" and "x \<le> p"
proof -
  from cloud_efficiency_range [OF assms(3-5), of inp]
  obtain e where e: "cloud_efficiency (calculate inp w) = Fin e"
    and "900719925474099 / 4503599627370496 \<le> e" and "e \<le> 1"
    by (rule py_le_Fin_cases)
  then have "0 \<le> p * e" and "p * e \<le> p"
    using assms(2) by (simp_all add: mult_left_le)
  then have "py_le (Fin 0) (fl (p * e))" and "py_le (fl (p * e)) (Fin p)"
    using fl_mono [of 0 "p * e"] fl_mono [of "p * e" p] assms(1)
    by (simp_all add: fl_zero fl_double)
  then obtain x where "fl (p * e) = Fin x" and "0 \<le> x" and "x \<le> p"
    by (rule py_le_Fin_cases)
  then show thesis using e by (intro that [of x]) simp_all
qed

lemma actual_power_le_rated:
  assumes "panel_power inp = Fin p" and "is_double p" and "0 \<le> p"
    and "clouds w = Fin c" and "0 \<le> c" and "c \<le> 100"
    and "py_le (temp_c w) (Fin 225)"
  shows "py_le (actual_power (calculate inp w)) (Fin p)"
proof -
  from clouded_power_range [OF assms(2-6), of inp]
  obtain x where x: "py_mul (Fin p) (cloud_efficiency (calculate inp w)) = Fin x"
    and "0 \<le> x" and "x \<le> p" by blast
  from temp_efficiency_nonneg [OF assms(7), of inp] temp_efficiency_le_1 [of inp w]
  obtain t where t: "temp_efficiency (calculate inp w) = Fin t" and "0 \<le> t" and "t \<le> 1"
    by (rule py_le_Fin_cases)
  have "x * t \<le> p"
    using \<open>0 \<le> x\<close> \<open>x \<le> p\<close> \<open>0 \<le> t\<close> \<open>t \<le> 1\<close> mult_left_le [of t x] by simp
  then have "py_le (fl (x * t)) (Fin p)"
    using fl_mono [of "x * t" p] assms(2) by (simp add: fl_double)
  then show ?thesis
    by (simp add: actual_power_calculate assms(1) x t)
qed

section \<open>The error of one rounding\<close>

lemma round_half_even_error: "\<bar>of_int (round_half_even q) - q\<bar> \<le> 1 / 2"
proof -
  have "of_int \<lfloor>q\<rfloor> \<le> q" and "q < of_int \<lfloor>q\<rfloor> + 1"
    by linarith+
  then show ?thesis
    by (auto simp: round_half_even_def Let_def abs_le_iff)
qed

lemma rnd_error: "\<bar>rnd x - x\<bar> \<le> 2 powi ulp_exp x / 2"
proof -
  let ?s = "(2::rat) powi ulp_exp x"
  have s: "0 < ?s" by simp
  have "rnd x - x = (of_int (round_half_even (x / ?s)) - x / ?s) * ?s"
    using s by (simp add: rnd_def field_simps)
  then have "\<bar>rnd x - x\<bar> = \<bar>of_int (round_half_even (x / ?s)) - x / ?s\<bar> * ?s"
    using s by (simp add: abs_mult)
  also have "\<dots> \<le> 1 / 2 * ?s"
    using round_half_even_error [of "x / ?s"] s by (intro mult_right_mono) simp_all
  finally show ?thesis by simp
qed

lemma rnd_rel_error:
  assumes "1 / 2 ^ 1022 \<le> \<bar>x\<bar>"
  shows "\<bar>rnd x - x\<bar> \<le> \<bar>x\<bar> / 2 ^ 53"
proof -
  have "2 powi (ulp_exp x + 52) \<le> \<bar>x\<bar>"
  proof (cases "ulp_exp x = - 1074")
    case True
    with assms show ?thesis by simp
  next
    case False
    with ulp_exp_range [of x] show ?thesis
      by (intro ulp_exp_lower) simp
  qed
  then have "2 powi ulp_exp x \<le> \<bar>x\<bar> / 2 ^ 52"
    unfolding two_powi_52 by (simp add: field_simps)
  with rnd_error [of x] show ?thesis by simp
qed

lemma fl_finite:
  assumes "\<bar>x\<bar> \<le> 2 ^ 1023"
  shows "fl x = Fin (rnd x)"
proof -
  have r: "rnd (2 ^ 1023) = 2 ^ 1023" "rnd (- (2 ^ 1023)) = - (2 ^ 1023)"
    by (simp_all add: rnd_eval [of 971] round_half_even_def Let_def)
  have "rnd x \<le> 2 ^ 1023" and "- (2 ^ 1023) \<le> rnd x"
    using rnd_mono [of x "2 ^ 1023"] rnd_mono [of "- (2 ^ 1023)" x] assms r
    by (simp_all add: abs_le_iff)
  then show ?thesis
    by (simp add: fl_def Let_def)
qed

lemma monthly_production_error:
  assumes a: "actual_power (calculate inp w) = Fin a"
    and lo: "1 / 2 ^ 1022 \<le> \<bar>a\<bar>" and hi: "\<bar>a\<bar> \<le> 2 ^ 1000"
  shows "close_to (monthly_production (calculate inp w)) (a * 150) (\<bar>a\<bar> * 150 / 2 ^ 51)"
proof -
  define d where "d = rnd (a * 5)"
  define m where "m = rnd (d * 30)"
  have "\<bar>a * 5\<bar> \<le> 2 ^ 1023"
    using hi by (simp add: abs_mult)
  then have daily: "daily_production (calculate inp w) = Fin d"
    by (simp add: daily_production_calculate a d_def fl_finite)
  have "1 / 2 ^ 1022 \<le> \<bar>a * 5\<bar>"
    using lo by (simp add: abs_mult)
  from rnd_rel_error [OF this] have ed: "\<bar>d - a * 5\<bar> \<le> \<bar>a\<bar> * 5 / 2 ^ 53"
    by (simp add: d_def abs_mult)
  have dl: "\<bar>a\<bar> * 4 \<le> \<bar>d\<bar>" and du: "\<bar>d\<bar> \<le> \<bar>a\<bar> * 6"
    using ed by (simp_all add: abs_le_iff abs_if split: if_splits)
  have "\<bar>d * 30\<bar> \<le> 2 ^ 1023"
    using du hi by (simp add: abs_mult)
  then have monthly: "monthly_production (calculate inp w) = Fin m"
    by (simp add: monthly_production_calculate daily m_def fl_finite)
  have "1 / 2 ^ 1022 \<le> \<bar>d * 30\<bar>"
    using dl lo by (simp add: abs_mult)
  from rnd_rel_error [OF this] have em: "\<bar>m - d * 30\<bar> \<le> \<bar>d\<bar> * 30 / 2 ^ 53"
    by (simp add: m_def abs_mult)
  have "\<bar>m - a * 150\<bar> \<le> \<bar>m - d * 30\<bar> + \<bar>d - a * 5\<bar> * 30"
    by (simp add: abs_le_iff abs_if split: if_splits)
  also have "\<dots> \<le> \<bar>a\<bar> * 6 * 30 / 2 ^ 53 + \<bar>a\<bar> * 5 / 2 ^ 53 * 30"
    using em ed du by (intro add_mono) simp_all
  also have "\<dots> \<le> \<bar>a\<bar> * 150 / 2 ^ 51"
    by simp
  finally show ?thesis
    by (simp add: monthly)
qed

section \<open>The largest double\<close>

lemma double_grid:
  assumes "is_double x"
  shows "x = of_int (round_half_even (x / 2 powi ulp_exp x)) * 2 powi ulp_exp x"
  using assms by (simp add: is_double_def rnd_def)

lemma double_le_max:
  assumes "is_double t"
  shows "\<bar>t\<bar> \<le> 2 ^ 1024 - 2 ^ 971"
proof (rule ccontr)
  assume "\<not> \<bar>t\<bar> \<le> 2 ^ 1024 - 2 ^ 971"
  then have big: "2 ^ 1024 - 2 ^ 971 < \<bar>t\<bar>" by simp
  have small: "\<bar>t\<bar> < 2 ^ 1024"
    using assms by (simp add: is_double_def)
  have "(2::rat) powi (971 + 52) \<le> \<bar>t\<bar>"
    using big by simp
  then have e: "ulp_exp t = 971"
    by (intro ulp_exp_eqI) simp_all
  define k where "k = round_half_even (t / 2 powi 971)"
  have t: "t = of_int k * 2 ^ 971"
    using double_grid [OF assms] by (simp add: e k_def)
  have "\<bar>t\<bar> = of_int \<bar>k\<bar> * 2 ^ 971"
    by (simp add: t abs_mult)
  with big small have "(of_int (2 ^ 53 - 1) :: rat) * 2 ^ 971 < of_int \<bar>k\<bar> * 2 ^ 971"
    and "(of_int \<bar>k\<bar> :: rat) * 2 ^ 971 < of_int (2 ^ 53) * 2 ^ 971"
    by simp_all
  then have "(of_int (2 ^ 53 - 1) :: rat) < of_int \<bar>k\<bar>" and "(of_int \<bar>k\<bar> :: rat) < of_int (2 ^ 53)"
    by (simp_all only: mult_less_cancel_right_pos zero_less_power zero_less_numeral)
  then have "2 ^ 53 - 1 < \<bar>k\<bar>" and "\<bar>k\<bar> < 2 ^ 53"
    by (simp_all only: of_int_less_iff)
  then show False by simp
qed

lemma fl_near_max:
  assumes "\<bar>x\<bar> \<le> 2 ^ 1024 - 2 ^ 971 + 2 ^ 900"
  obtains y where "fl x = Fin y" and "\<bar>y\<bar> \<le> 2 ^ 1024 - 2 ^ 971"
proof -
  have r: "rnd (2 ^ 1024 - 2 ^ 971 + 2 ^ 900) = 2 ^ 1024 - 2 ^ 971"
    "rnd (- (2 ^ 1024 - 2 ^ 971 + 2 ^ 900)) = - (2 ^ 1024 - 2 ^ 971)"
    by (simp_all add: rnd_eval [of 971] round_half_even_def Let_def)
  have "rnd x \<le> 2 ^ 1024 - 2 ^ 971" and "- (2 ^ 1024 - 2 ^ 971) \<le> rnd x"
    using rnd_mono [of x "2 ^ 1024 - 2 ^ 971 + 2 ^ 900"]
      rnd_mono [of "- (2 ^ 1024 - 2 ^ 971 + 2 ^ 900)" x] assms
    unfolding r by (simp_all add: abs_le_iff)
  then have "fl x = Fin (rnd x)" and "\<bar>rnd x\<bar> \<le> 2 ^ 1024 - 2 ^ 971"
    by (simp_all add: fl_def Let_def abs_le_iff)
  then show thesis by (rule that)
qed

lemma heat_loss_finite:
  assumes "temp_c w = Fin t" and "is_double t"
  obtains h where "heat_loss (calculate inp w) = Fin h" and "0 \<le> h"
    and "h \<le> 2 ^ 1024 - 2 ^ 971"
proof -
  have "\<bar>t - 25\<bar> \<le> 2 ^ 1024 - 2 ^ 971 + 2 ^ 900"
    using double_le_max [OF assms(2)] by (simp add: abs_le_iff)
  then obtain y where y: "fl (t - 25) = Fin y" and yb: "\<bar>y\<bar> \<le> 2 ^ 1024 - 2 ^ 971"
    by (rule fl_near_max)
  have "\<bar>y * (5764607523034235 / 1152921504606846976)\<bar> \<le> \<bar>y\<bar>"
    by (simp add: abs_mult mult_left_le)
  with yb have "\<bar>y * (5764607523034235 / 1152921504606846976)\<bar>
      \<le> 2 ^ 1024 - 2 ^ 971 + 2 ^ 900"
    by simp
  then obtain z where z: "fl (y * (5764607523034235 / 1152921504606846976)) = Fin z"
    and zb: "\<bar>z\<bar> \<le> 2 ^ 1024 - 2 ^ 971"
    by (rule fl_near_max)
  have hl: "heat_loss (calculate inp w) = py_max (Fin 0) (Fin z)"
    unfolding heat_loss_calculate lit_0_005 using z by (simp add: assms(1) y)
  show thesis
  proof (cases "0 < z")
    case True
    with hl zb show thesis
      by (intro that [of z]) (simp_all add: py_max_def py_gt_def)
  next
    case False
    with hl show thesis
      by (intro that [of 0]) (simp_all add: py_max_def py_gt_def)
  qed
qed

lemma temp_efficiency_finite:
  assumes "temp_c w = Fin t" and "is_double t"
  obtains e where "temp_efficiency (calculate inp w) = Fin e"
proof -
  from heat_loss_finite [OF assms, of inp]
  obtain h where h: "heat_loss (calculate inp w) = Fin h" and "0 \<le> h"
    and "h \<le> 2 ^ 1024 - 2 ^ 971" by blast
  then have "\<bar>1 - h\<bar> \<le> 2 ^ 1024 - 2 ^ 971 + 2 ^ 900"
    by (simp add: abs_le_iff)
  then obtain e where "fl (1 - h) = Fin e"
    by (rule fl_near_max)
  then show thesis
    by (intro that [of e]) (simp add: temp_efficiency_calculate h)
qed

lemma temp_efficiency_cong:
  "temp_c w = temp_c w' \<Longrightarrow>
   temp_efficiency (calculate inp w) = temp_efficiency (calculate inp' w')"
  by (simp add: temp_efficiency_calculate heat_loss_calculate)

lemma cloud_efficiency_cong:
  "clouds w = clouds w' \<Longrightarrow>
   cloud_efficiency (calculate inp w) = cloud_efficiency (calculate inp' w')"
  by (simp add: cloud_efficiency_calculate)

lemma actual_power_antimono_clouds:
  assumes "panel_power inp = Fin p" and "is_double p" and "0 \<le> p"
    and "clouds w = Fin c" and "clouds w' = Fin c'"
    and "0 \<le> c" and "c \<le> c'" and "c' \<le> 100"
    and "temp_c w' = temp_c w" and "py_le (temp_c w) (Fin 225)"
  shows "py_le (actual_power (calculate inp w')) (actual_power (calculate inp w))"
proof -
  have "py_le (clouds w) (clouds w')"
    using assms(4,5,7) by simp
  from cloud_efficiency_antimono [OF this, of inp inp]
  have ce: "py_le (cloud_efficiency (calculate inp w')) (cloud_efficiency (calculate inp w))" .
  from cloud_efficiency_range [OF assms(4), of inp] assms(6-8)
  obtain e where e: "cloud_efficiency (calculate inp w) = Fin e"
    by (cases "cloud_efficiency (calculate inp w)") simp_all
  from cloud_efficiency_range [OF assms(5), of inp] assms(6-8)
  obtain e' where e': "cloud_efficiency (calculate inp w') = Fin e'" and "0 \<le> e'"
    by (cases "cloud_efficiency (calculate inp w')") simp_all
  from ce have "e' \<le> e" by (simp add: e e')
  from clouded_power_range [OF assms(2,3,4), of inp] assms(6-8)
  obtain a where a: "fl (p * e) = Fin a" by (auto simp: e)
  from clouded_power_range [OF assms(2,3,5), of inp] assms(6-8)
  obtain a' where a': "fl (p * e') = Fin a'" and "0 \<le> a'" by (auto simp: e')
  have "py_le (fl (p * e')) (fl (p * e))"
    using \<open>e' \<le> e\<close> assms(3) by (intro fl_mono mult_left_mono)
  then have "a' \<le> a" by (simp add: a a')
  from temp_efficiency_nonneg [OF assms(10), of inp] temp_efficiency_le_1 [of inp w]
  obtain t where t: "temp_efficiency (calculate inp w) = Fin t" and "0 \<le> t"
    by (rule py_le_Fin_cases)
  have t': "temp_efficiency (calculate inp w') = Fin t"
    using temp_efficiency_cong [OF assms(9), of inp inp] t by simp
  have "py_le (fl (a' * t)) (fl (a * t))"
    using \<open>a' \<le> a\<close> \<open>0 \<le> t\<close> by (intro fl_mono mult_right_mono)
  then show ?thesis
    by (simp add: actual_power_calculate assms(1) e e' a a' t t')
qed

lemma actual_power_antimono_temp:
  assumes "panel_power inp = Fin p" and "is_double p" and "0 \<le> p"
    and "clouds w = Fin c" and "clouds w' = Fin c" and "0 \<le> c" and "c \<le> 100"
    and "temp_c w = Fin t" and "temp_c w' = Fin t'"
    and "is_double t" and "is_double t'" and "t \<le> t'"
  shows "py_le (actual_power (calculate inp w')) (actual_power (calculate inp w))"
proof -
  from clouded_power_range [OF assms(2,3,4,6,7), of inp]
  obtain a where a: "py_mul (Fin p) (cloud_efficiency (calculate inp w)) = Fin a"
    and "0 \<le> a" by blast
  have a': "py_mul (Fin p) (cloud_efficiency (calculate inp w')) = Fin a"
    using cloud_efficiency_cong [of w w' inp inp] a assms(4,5) by simp
  from temp_efficiency_finite [OF assms(8,10), of inp]
  obtain s where s: "temp_efficiency (calculate inp w) = Fin s" by blast
  from temp_efficiency_finite [OF assms(9,11), of inp]
  obtain s' where s': "temp_efficiency (calculate inp w') = Fin s'" by blast
  have "py_le (temp_c w) (temp_c w')"
    using assms(8,9,12) by simp
  from temp_efficiency_antimono [OF this, of inp inp] have "s' \<le> s"
    by (simp add: s s')
  then have "py_le (fl (a * s')) (fl (a * s))"
    using \<open>0 \<le> a\<close> by (intro fl_mono mult_left_mono)
  then show ?thesis
    by (simp add: actual_power_calculate assms(1) a a' s s')
qed

section \<open>Doubles next to a threshold\<close>

lemma double_multiple:
  assumes d: "is_double x" and big: "2 powi (k + 52) \<le> \<bar>x\<bar>"
  obtains m :: int where "x = of_int m * 2 powi k"
proof -
  have small: "\<bar>x\<bar> < 2 ^ 1024"
    using d by (simp add: is_double_def)
  have "k \<le> ulp_exp x"
  proof (rule ccontr)
    assume "\<not> k \<le> ulp_exp x"
    then have lt: "ulp_exp x < k" by simp
    show False
    proof (cases "ulp_exp x < 971")
      case True
      then have "\<bar>x\<bar> < 2 powi (ulp_exp x + 53)"
        by (rule ulp_exp_upper)
      also have "\<dots> \<le> 2 powi (k + 52)"
        using lt by (intro two_powi_mono) simp
      finally show False using big by simp
    next
      case False
      with lt have "(2::rat) powi 1024 \<le> 2 powi (k + 52)"
        by (intro two_powi_mono) simp
      with big small show False by simp
    qed
  qed
  then obtain n :: nat where n: "ulp_exp x = k + int n"
    using zle_iff_zadd by blast
  define r where "r = round_half_even (x / 2 powi ulp_exp x)"
  have "(2::rat) powi (k + int n) = 2 powi k * 2 ^ n"
    by (simp add: power_int_add)
  with double_grid [OF d] have "x = of_int r * (2 powi k * 2 ^ n)"
    unfolding r_def n by simp
  also have "\<dots> = of_int (r * 2 ^ n) * 2 powi k"
    by simp
  finally show thesis by (rule that)
qed

lemma double_above_125:
  assumes "is_double c" and "125 < c"
  shows "125 + 1 / 2 ^ 46 \<le> c"
proof -
  have "(2::rat) powi (- 46 + 52) \<le> \<bar>c\<bar>"
    using assms(2) by simp
  with assms(1) obtain m :: int where m: "c = of_int m * 2 powi (- 46)"
    by (rule double_multiple)
  then have c: "c = of_int m / 2 ^ 46"
    by (simp add: power_int_minus field_simps)
  with assms(2) have "(of_int (125 * 2 ^ 46) :: rat) < of_int m"
    by (simp add: field_simps)
  then have "125 * 2 ^ 46 < m"
    by (simp only: of_int_less_iff)
  then have "125 * 2 ^ 46 + 1 \<le> m" by simp
  then have "(of_int (125 * 2 ^ 46 + 1) :: rat) \<le> of_int m"
    by (simp only: of_int_le_iff)
  then show ?thesis
    by (simp add: c field_simps)
qed

lemma double_below_125:
  assumes "is_double c" and "c < 125"
  shows "c \<le> 125 - 1 / 2 ^ 46"
proof (cases "64 \<le> c")
  case False
  then show ?thesis by simp
next
  case True
  then have "(2::rat) powi (- 46 + 52) \<le> \<bar>c\<bar>"
    by simp
  with assms(1) obtain m :: int where m: "c = of_int m * 2 powi (- 46)"
    by (rule double_multiple)
  then have c: "c = of_int m / 2 ^ 46"
    by (simp add: power_int_minus field_simps)
  with assms(2) have "(of_int m :: rat) < of_int (125 * 2 ^ 46)"
    by (simp add: field_simps)
  then have "m < 125 * 2 ^ 46"
    by (simp only: of_int_less_iff)
  then have "m \<le> 125 * 2 ^ 46 - 1" by simp
  then have "(of_int m :: rat) \<le> of_int (125 * 2 ^ 46 - 1)"
    by (simp only: of_int_le_iff)
  then show ?thesis
    by (simp add: c field_simps)
qed

lemma double_above_225:
  assumes "is_double t" and "225 < t"
  shows "225 + 1 / 2 ^ 45 \<le> t"
proof -
  have "(2::rat) powi (- 45 + 52) \<le> \<bar>t\<bar>"
    using assms(2) by simp
  with assms(1) obtain m :: int where m: "t = of_int m * 2 powi (- 45)"
    by (rule double_multiple)
  then have t: "t = of_int m / 2 ^ 45"
    by (simp add: power_int_minus field_simps)
  with assms(2) have "(of_int (225 * 2 ^ 45) :: rat) < of_int m"
    by (simp add: field_simps)
  then have "225 * 2 ^ 45 < m"
    by (simp only: of_int_less_iff)
  then have "225 * 2 ^ 45 + 1 \<le> m" by simp
  then have "(of_int (225 * 2 ^ 45 + 1) :: rat) \<le> of_int m"
    by (simp only: of_int_le_iff)
  then show ?thesis
    by (simp add: t field_simps)
qed

lemma double_below_225:
  assumes "is_double t" and "t < 225"
  shows "t \<le> 225 - 1 / 2 ^ 45"
proof (cases "128 \<le> t")
  case False
  then show ?thesis by simp
next
  case True
  then have "(2::rat) powi (- 45 + 52) \<le> \<bar>t\<bar>"
    by simp
  with assms(1) obtain m :: int where m: "t = of_int m * 2 powi (- 45)"
    by (rule double_multiple)
  then have t: "t = of_int m / 2 ^ 45"
    by (simp add: power_int_minus field_simps)
  with assms(2) have "(of_int m :: rat) < of_int (225 * 2 ^ 45)"
    by (simp add: field_simps)
  then have "m < 225 * 2 ^ 45"
    by (simp only: of_int_less_iff)
  then have "m \<le> 225 * 2 ^ 45 - 1" by simp
  then have "(of_int m :: rat) \<le> of_int (225 * 2 ^ 45 - 1)"
    by (simp only: of_int_le_iff)
  then show ?thesis
    by (simp add: t field_simps)
qed

section \<open>Signs of products\<close>

lemma py_mul_commute: "py_mul a b = py_mul b a"
  by (cases a; cases b) (simp_all add: mult.commute)

lemma py_le_lt_trans: "py_le a b \<Longrightarrow> py_lt b c \<Longrightarrow> py_lt a c"
  by (cases a; cases b; cases c) simp_all

lemma py_lt_le_trans: "py_lt a b \<Longrightarrow> py_le b c \<Longrightarrow> py_lt a c"
  by (cases a; cases b; cases c) simp_all

lemma fl_le_neg_small:
  assumes "x \<le> - (1 / 2 ^ 1000)"
  shows "py_le (fl x) (Fin (- (1 / 2 ^ 1000)))"
proof -
  have "rnd (- (1 / 2 ^ 1000)) = - (1 / 2 ^ 1000)"
    by (simp add: rnd_eval [of "- 1052"] round_half_even_def Let_def)
  with rnd_mono [OF assms] show ?thesis
    by (simp add: fl_def Let_def)
qed

lemma fl_ge_pos_small:
  assumes "1 / 2 ^ 1000 \<le> x"
  shows "py_le (Fin (1 / 2 ^ 1000)) (fl x)"
proof -
  have "rnd (1 / 2 ^ 1000) = 1 / 2 ^ 1000"
    by (simp add: rnd_eval [of "- 1052"] round_half_even_def Let_def)
  with rnd_mono [OF assms] show ?thesis
    by (simp add: fl_def Let_def)
qed

lemma fl_lt_zero:
  assumes "x \<le> - (1 / 2 ^ 1074)"
  shows "py_lt (fl x) (Fin 0)"
proof -
  have "rnd (- (1 / 2 ^ 1074)) = - (1 / 2 ^ 1074)"
    by (simp add: rnd_eval [of "- 1074"] round_half_even_def Let_def)
  with rnd_mono [OF assms] have "rnd x < 0"
    by simp
  then show ?thesis
    by (simp add: fl_def Let_def)
qed

lemma fl_gt_zero:
  assumes "1 / 2 ^ 1074 \<le> x"
  shows "py_lt (Fin 0) (fl x)"
proof -
  have "rnd (1 / 2 ^ 1074) = 1 / 2 ^ 1074"
    by (simp add: rnd_eval [of "- 1074"] round_half_even_def Let_def)
  with rnd_mono [OF assms] have "0 < rnd x"
    by simp
  then show ?thesis
    by (simp add: fl_def Let_def)
qed

lemma mult_neg_pos_le:
  fixes a :: rat
  assumes "a' \<le> a" and "a < 0" and "s \<le> s'" and "0 < s"
  shows "a' * s' \<le> a * s"
proof -
  have "a' * s' \<le> a * s'"
    using assms by (intro mult_right_mono) simp_all
  also have "\<dots> \<le> a * s"
    using assms by (intro mult_left_mono_neg) simp_all
  finally show ?thesis .
qed

lemma mult_pos_pos_ge:
  fixes a :: rat
  assumes "a \<le> a'" and "0 < a" and "s \<le> s'" and "0 < s"
  shows "a * s \<le> a' * s'"
  using assms by (intro mult_mono) simp_all

lemma mult_neg_neg_ge:
  fixes a :: rat
  assumes "a' \<le> a" and "a < 0" and "s' \<le> s" and "s < 0"
  shows "a * s \<le> a' * s'"
  using mult_pos_pos_ge [of "- a" "- a'" "- s" "- s'"] assms by simp

lemma py_mul_neg_pos_le:
  assumes "py_le x (Fin a)" and "a < 0" and "py_le (Fin s) y" and "0 < s"
  shows "py_le (py_mul x y) (fl (a * s))"
proof (cases x)
  case (Fin a')
  with assms(1) have a': "a' \<le> a" by simp
  show ?thesis
  proof (cases y)
    case (Fin s')
    with assms(3) have "s \<le> s'" by simp
    then show ?thesis
      using a' assms(2,4) by (simp add: Fin \<open>x = Fin a'\<close> fl_mono mult_neg_pos_le)
  qed (use assms a' Fin in simp_all)
next
  case NInf
  with assms show ?thesis by (cases y) auto
qed (use assms in simp_all)

lemma py_mul_pos_pos_ge:
  assumes "py_le (Fin a) x" and "0 < a" and "py_le (Fin s) y" and "0 < s"
  shows "py_le (fl (a * s)) (py_mul x y)"
proof (cases x)
  case (Fin a')
  with assms(1) have a': "a \<le> a'" by simp
  show ?thesis
  proof (cases y)
    case (Fin s')
    with assms(3) have "s \<le> s'" by simp
    then show ?thesis
      using a' assms(2,4) by (simp add: Fin \<open>x = Fin a'\<close> fl_mono mult_pos_pos_ge)
  qed (use assms a' Fin in simp_all)
next
  case PInf
  with assms show ?thesis by (cases y) auto
qed (use assms in simp_all)

lemma py_mul_neg_neg_ge:
  assumes "py_le x (Fin a)" and "a < 0" and "py_le y (Fin s)" and "s < 0"
  shows "py_le (fl (a * s)) (py_mul x y)"
proof (cases x)
  case (Fin a')
  with assms(1) have a': "a' \<le> a" by simp
  show ?thesis
  proof (cases y)
    case (Fin s')
    with assms(3) have "s' \<le> s" by simp
    then show ?thesis
      using a' assms(2,4) by (simp add: Fin \<open>x = Fin a'\<close> fl_mono mult_neg_neg_ge)
  qed (use assms a' Fin in simp_all)
next
  case NInf
  with assms show ?thesis by (cases y) auto
qed (use assms in simp_all)

section \<open>Efficiencies beyond the thresholds\<close>

lemma cloud_efficiency_next_to_125:
  "cloud_efficiency (calculate inp (snapshot (125 + 1 / 2 ^ 46) t)) = Fin (- (1 / 2 ^ 52))"
  "cloud_efficiency (calculate inp (snapshot (125 - 1 / 2 ^ 46) t)) = Fin (1 / 2 ^ 53)"
  by (simp_all add: cloud_efficiency_calculate lit_def fl_vals)

lemma temp_efficiency_next_to_225:
  "temp_efficiency (calculate inp (snapshot c (225 + 1 / 2 ^ 45))) = Fin (- (1 / 2 ^ 52))"
  "temp_efficiency (calculate inp (snapshot c (225 - 1 / 2 ^ 45))) = Fin (1 / 2 ^ 53)"
  by (simp_all add: temp_efficiency_calculate heat_loss_calculate lit_def py_max_def py_gt_def
      fl_vals)

lemma cloud_efficiency_above_125:
  assumes "clouds w = Fin c" and "is_double c" and "125 < c"
  shows "py_le (cloud_efficiency (calculate inp w)) (Fin (- (1 / 2 ^ 52)))"
proof -
  have "py_le (clouds (snapshot (125 + 1 / 2 ^ 46) 0)) (clouds w)"
    using double_above_125 [OF assms(2,3)] assms(1) by simp
  from cloud_efficiency_antimono [OF this, of inp inp] show ?thesis
    unfolding cloud_efficiency_next_to_125 .
qed

lemma cloud_efficiency_below_125:
  assumes "clouds w = Fin c" and "is_double c" and "c < 125"
  shows "py_le (Fin (1 / 2 ^ 53)) (cloud_efficiency (calculate inp w))"
proof -
  have "py_le (clouds w) (clouds (snapshot (125 - 1 / 2 ^ 46) 0))"
    using double_below_125 [OF assms(2,3)] assms(1) by simp
  from cloud_efficiency_antimono [OF this, of inp inp] show ?thesis
    unfolding cloud_efficiency_next_to_125 .
qed

lemma temp_efficiency_above_225:
  assumes "temp_c w = Fin t" and "is_double t" and "225 < t"
  shows "py_le (temp_efficiency (calculate inp w)) (Fin (- (1 / 2 ^ 52)))"
proof -
  have "py_le (temp_c (snapshot 0 (225 + 1 / 2 ^ 45))) (temp_c w)"
    using double_above_225 [OF assms(2,3)] assms(1) by simp
  from temp_efficiency_antimono [OF this, of inp inp] show ?thesis
    unfolding temp_efficiency_next_to_225 .
qed

lemma temp_efficiency_below_225:
  assumes "temp_c w = Fin t" and "is_double t" and "t < 225"
  shows "py_le (Fin (1 / 2 ^ 53)) (temp_efficiency (calculate inp w))"
proof -
  have "py_le (temp_c w) (temp_c (snapshot 0 (225 - 1 / 2 ^ 45)))"
    using double_below_225 [OF assms(2,3)] assms(1) by simp
  from temp_efficiency_antimono [OF this, of inp inp] show ?thesis
    unfolding temp_efficiency_next_to_225 .
qed

lemma clouded_power_neg:
  assumes "py_le ce (Fin (- (1 / 2 ^ 52)))" and "1 / 2 ^ 900 \<le> p"
  shows "py_le (py_mul (Fin p) ce) (Fin (- (1 / 2 ^ 1000)))"
proof -
  have "py_le (py_mul ce (Fin p)) (fl (- (1 / 2 ^ 52) * (1 / 2 ^ 900)))"
    using assms by (intro py_mul_neg_pos_le) simp_all
  moreover have "py_le (fl (- (1 / 2 ^ 52) * (1 / 2 ^ 900))) (Fin (- (1 / 2 ^ 1000)))"
    by (rule fl_le_neg_small) simp
  ultimately show ?thesis
    unfolding py_mul_commute [of "Fin p"] by (rule py_le_trans)
qed

lemma clouded_power_pos:
  assumes "py_le (Fin (1 / 2 ^ 53)) ce" and "1 / 2 ^ 900 \<le> p"
  shows "py_le (Fin (1 / 2 ^ 1000)) (py_mul (Fin p) ce)"
proof -
  have "py_le (fl (1 / 2 ^ 53 * (1 / 2 ^ 900))) (py_mul ce (Fin p))"
    using assms by (intro py_mul_pos_pos_ge) simp_all
  moreover have "py_le (Fin (1 / 2 ^ 1000)) (fl (1 / 2 ^ 53 * (1 / 2 ^ 900)))"
    by (rule fl_ge_pos_small) simp
  ultimately show ?thesis
    unfolding py_mul_commute [of "Fin p"] by (rule py_le_trans [rotated])
qed

lemma actual_power_neg_clouds:
  assumes "panel_power inp = Fin p" and "1 / 2 ^ 900 \<le> p"
    and "clouds w = Fin c" and "is_double c" and "125 < c"
    and "temp_c w = Fin t" and "is_double t" and "t < 225"
  shows "py_lt (actual_power (calculate inp w)) (Fin 0)"
proof -
  have x: "py_le (py_mul (Fin p) (cloud_efficiency (calculate inp w))) (Fin (- (1 / 2 ^ 1000)))"
    using cloud_efficiency_above_125 [OF assms(3-5)] assms(2) by (rule clouded_power_neg)
  have "py_le (actual_power (calculate inp w)) (fl (- (1 / 2 ^ 1000) * (1 / 2 ^ 53)))"
    unfolding actual_power_calculate assms(1)
    using x temp_efficiency_below_225 [OF assms(6-8), of inp]
    by (intro py_mul_neg_pos_le) simp_all
  moreover have "py_lt (fl (- (1 / 2 ^ 1000) * (1 / 2 ^ 53))) (Fin 0)"
    by (rule fl_lt_zero) simp
  ultimately show ?thesis by (rule py_le_lt_trans)
qed

lemma actual_power_neg_temp:
  assumes "panel_power inp = Fin p" and "1 / 2 ^ 900 \<le> p"
    and "clouds w = Fin c" and "is_double c" and "c < 125"
    and "temp_c w = Fin t" and "is_double t" and "225 < t"
  shows "py_lt (actual_power (calculate inp w)) (Fin 0)"
proof -
  have x: "py_le (Fin (1 / 2 ^ 1000)) (py_mul (Fin p) (cloud_efficiency (calculate inp w)))"
    using cloud_efficiency_below_125 [OF assms(3-5)] assms(2) by (rule clouded_power_pos)
  have "py_le (py_mul (temp_efficiency (calculate inp w))
      (py_mul (Fin p) (cloud_efficiency (calculate inp w))))
      (fl (- (1 / 2 ^ 52) * (1 / 2 ^ 1000)))"
    using temp_efficiency_above_225 [OF assms(6-8), of inp] x
    by (intro py_mul_neg_pos_le) simp_all
  then have "py_le (actual_power (calculate inp w)) (fl (- (1 / 2 ^ 52) * (1 / 2 ^ 1000)))"
    unfolding actual_power_calculate assms(1)
    by (simp only: py_mul_commute [of "temp_efficiency (calculate inp w)"])
  moreover have "py_lt (fl (- (1 / 2 ^ 52) * (1 / 2 ^ 1000))) (Fin 0)"
    by (rule fl_lt_zero) simp
  ultimately show ?thesis by (rule py_le_lt_trans)
qed

lemma actual_power_pos_both:
  assumes "panel_power inp = Fin p" and "1 / 2 ^ 900 \<le> p"
    and "clouds w = Fin c" and "is_double c" and "125 < c"
    and "temp_c w = Fin t" and "is_double t" and "225 < t"
  shows "py_lt (Fin 0) (actual_power (calculate inp w))"
proof -
  have x: "py_le (py_mul (Fin p) (cloud_efficiency (calculate inp w))) (Fin (- (1 / 2 ^ 1000)))"
    using cloud_efficiency_above_125 [OF assms(3-5)] assms(2) by (rule clouded_power_neg)
  have "py_le (fl (- (1 / 2 ^ 1000) * - (1 / 2 ^ 52))) (actual_power (calculate inp w))"
    unfolding actual_power_calculate assms(1)
    using x temp_efficiency_above_225 [OF assms(6-8), of inp]
    by (intro py_mul_neg_neg_ge) simp_all
  moreover have "py_lt (Fin 0) (fl (- (1 / 2 ^ 1000) * - (1 / 2 ^ 52)))"
    by (rule fl_gt_zero) simp
  ultimately show ?thesis by (rule py_lt_le_trans [rotated])
qed

lemma round_half_even_small:
  assumes "\<bar>q\<bar> \<le> 1 / 2"
  shows "round_half_even q = 0"
proof (cases "0 \<le> q")
  case True
  with assms have "\<lfloor>q\<rfloor> = 0"
    by (intro floor_unique) simp_all
  with assms True show ?thesis
    by (simp add: round_half_even_def Let_def)
next
  case False
  with assms have f: "\<lfloor>q\<rfloor> = - 1"
    by (intro floor_unique) (simp_all add: abs_le_iff)
  from assms False show ?thesis
    by (auto simp: round_half_even_def Let_def f abs_le_iff)
qed

lemma fl_underflow:
  assumes "\<bar>x\<bar> \<le> 1 / 2 ^ 1075"
  shows "fl x = Fin 0"
proof -
  have "\<bar>x\<bar> < 2 powi (- 1074 + 53)"
    using assms by simp
  then have "rnd x = of_int (round_half_even (x / 2 powi (- 1074))) * 2 powi (- 1074)"
    by (intro rnd_eval) simp_all
  moreover have "\<bar>x / 2 powi (- 1074)\<bar> \<le> 1 / 2"
    using assms by (simp add: power_int_minus field_simps)
  ultimately have "rnd x = 0"
    by (simp add: round_half_even_small)
  then show ?thesis
    by (simp add: fl_def)
qed

section \<open>The error of the efficiencies\<close>

lemma ulp_exp_le:
  assumes "\<bar>x\<bar> < 2 powi (k + 53)" and "- 1074 \<le> k"
  shows "ulp_exp x \<le> k"
proof (rule ccontr)
  assume "\<not> ulp_exp x \<le> k"
  then have gt: "k < ulp_exp x" by simp
  with assms(2) have "2 powi (ulp_exp x + 52) \<le> \<bar>x\<bar>"
    by (intro ulp_exp_lower) simp
  moreover have "(2::rat) powi (k + 53) \<le> 2 powi (ulp_exp x + 52)"
    using gt by (intro two_powi_mono) simp
  ultimately show False using assms(1) by simp
qed

lemma rnd_abs_error:
  assumes "\<bar>x\<bar> < 2 powi (k + 53)" and "- 1074 \<le> k"
  shows "\<bar>rnd x - x\<bar> \<le> 2 powi k / 2"
proof -
  have "(2::rat) powi ulp_exp x \<le> 2 powi k"
    using ulp_exp_le [OF assms] by (rule two_powi_mono)
  with rnd_error [of x] show ?thesis by simp
qed

lemma rnd_mixed_error: "\<bar>rnd x - x\<bar> \<le> \<bar>x\<bar> / 2 ^ 53 + 1 / 2 ^ 1075"
proof (cases "1 / 2 ^ 1022 \<le> \<bar>x\<bar>")
  case True
  from rnd_rel_error [OF this] show ?thesis by simp
next
  case False
  then have "\<bar>x\<bar> < 2 powi (- 1074 + 53)"
    by (simp add: power_int_minus field_simps)
  from rnd_abs_error [OF this] have "\<bar>rnd x - x\<bar> \<le> 1 / 2 ^ 1075"
    by (simp add: power_int_minus field_simps)
  moreover have "0 \<le> \<bar>x\<bar> / 2 ^ 53" by simp
  ultimately show ?thesis by linarith
qed

lemma rnd_strict:
  assumes "y + (\<bar>x\<bar> + \<bar>y\<bar>) / 2 ^ 53 + 1 / 2 ^ 1074 < x"
  shows "rnd y < rnd x"
proof -
  have "rnd y \<le> y + \<bar>y\<bar> / 2 ^ 53 + 1 / 2 ^ 1075"
    using rnd_mixed_error [of y] by (simp add: abs_le_iff)
  moreover have "x - \<bar>x\<bar> / 2 ^ 53 - 1 / 2 ^ 1075 \<le> rnd x"
    using rnd_mixed_error [of x] by (simp add: abs_le_iff)
  moreover have "y + \<bar>y\<bar> / 2 ^ 53 + 1 / 2 ^ 1075 < x - \<bar>x\<bar> / 2 ^ 53 - 1 / 2 ^ 1075"
    using assms by (simp add: add_divide_distrib)
  ultimately show ?thesis by linarith
qed

lemma fl_Fin_rnd: "fl y = Fin x \<Longrightarrow> x = rnd y"
  by (simp add: fl_def Let_def split: if_splits)

lemma fl_below_two:
  assumes "\<bar>x\<bar> < 2"
  shows "fl x = Fin (rnd x)" and "\<bar>rnd x - x\<bar> \<le> 1 / 2 ^ 53"
proof -
  from assms have "\<bar>x\<bar> \<le> 2 ^ 1023" by simp
  then show "fl x = Fin (rnd x)" by (rule fl_finite)
  from assms have "\<bar>x\<bar> < 2 powi (- 52 + 53)" by simp
  from rnd_abs_error [OF this] show "\<bar>rnd x - x\<bar> \<le> 1 / 2 ^ 53"
    by (simp add: power_int_minus)
qed

lemma cloud_efficiency_error:
  assumes "clouds w = Fin c" and "0 \<le> c" and "c \<le> 100"
  obtains e where "cloud_efficiency (calculate inp w) = Fin e"
    and "\<bar>e - (1 - 3602879701896397 / 4503599627370496 * c / 100)\<bar> \<le> 3 / 2 ^ 53"
proof -
  define d where "d = rnd (c / 100)"
  define m where "m = rnd (d * (3602879701896397 / 4503599627370496))"
  define e where "e = rnd (1 - m)"
  have "\<bar>c / 100\<bar> < 2"
    using assms(2,3) by simp
  from fl_below_two [OF this] have d: "fl (c / 100) = Fin d" and ed: "\<bar>d - c / 100\<bar> \<le> 1 / 2 ^ 53"
    by (simp_all add: d_def)
  have d0: "0 \<le> d"
    unfolding d_def using assms(2) by (intro rnd_nonneg) simp
  have db: "d \<le> 2"
    using ed assms(3) unfolding abs_le_iff by simp
  have "\<bar>d * (3602879701896397 / 4503599627370496)\<bar> < 2"
    using d0 db by (simp add: abs_mult)
  from fl_below_two [OF this]
  have m: "fl (d * (3602879701896397 / 4503599627370496)) = Fin m"
    and em: "\<bar>m - d * (3602879701896397 / 4503599627370496)\<bar> \<le> 1 / 2 ^ 53"
    by (simp_all add: m_def)
  have "\<bar>1 - m\<bar> < 2"
    using em d0 db unfolding abs_le_iff abs_less_iff by (simp; linarith)
  from fl_below_two [OF this] have e: "fl (1 - m) = Fin e" and ee: "\<bar>e - (1 - m)\<bar> \<le> 1 / 2 ^ 53"
    by (simp_all add: e_def)
  have "cloud_efficiency (calculate inp w) = Fin e"
    unfolding cloud_efficiency_calculate lit_0_8 using d m e by (simp add: assms(1))
  moreover have "\<bar>e - (1 - 3602879701896397 / 4503599627370496 * c / 100)\<bar> \<le> 3 / 2 ^ 53"
    using ed em ee unfolding abs_le_iff by (simp; linarith)
  ultimately show thesis by (rule that)
qed

lemma temp_efficiency_error:
  assumes "temp_c w = Fin t" and "25 \<le> t" and "t \<le> 225"
  obtains e where "temp_efficiency (calculate inp w) = Fin e"
    and "\<bar>e - (1 - 5764607523034235 / 1152921504606846976 * (t - 25))\<bar> \<le> 3 / 2 ^ 53"
proof -
  define l :: rat where "l = 5764607523034235 / 1152921504606846976"
  define s where "s = rnd (t - 25)"
  define z where "z = rnd (s * l)"
  define e where "e = rnd (1 - z)"
  have l0: "0 \<le> l" and l1: "l \<le> 1 / 128"
    by (simp_all add: l_def)
  have "\<bar>t - 25\<bar> \<le> 2 ^ 1023"
    using assms(2,3) by simp
  then have s: "fl (t - 25) = Fin s"
    unfolding s_def by (rule fl_finite)
  have "\<bar>t - 25\<bar> < 2 powi (- 45 + 53)"
    using assms(2,3) by simp
  from rnd_abs_error [OF this] have es: "\<bar>s - (t - 25)\<bar> \<le> 1 / 2 ^ 46"
    by (simp add: s_def power_int_minus)
  have s0: "0 \<le> s"
    unfolding s_def using assms(2) by (intro rnd_nonneg) simp
  have sb: "s \<le> 201"
    using es assms(3) unfolding abs_le_iff by simp
  have sl0: "0 \<le> s * l"
    using s0 l0 by (rule mult_nonneg_nonneg)
  have "s * l \<le> 201 * (1 / 128)"
    using sb l1 s0 l0 by (intro mult_mono) simp_all
  then have slb: "s * l < 2" by simp
  have "\<bar>s * l\<bar> < 2"
    using sl0 slb by simp
  from fl_below_two [OF this]
  have z: "fl (s * l) = Fin z" and ez: "\<bar>z - s * l\<bar> \<le> 1 / 2 ^ 53"
    by (simp_all add: z_def)
  have z0: "0 \<le> z"
    unfolding z_def using sl0 by (rule rnd_nonneg)
  have hl: "heat_loss (calculate inp w) = Fin z"
    unfolding heat_loss_calculate lit_0_005 using s z z0
    by (simp add: assms(1) py_max_def py_gt_def l_def)
  have "\<bar>1 - z\<bar> < 2"
    using ez z0 slb unfolding abs_le_iff abs_less_iff by auto
  from fl_below_two [OF this] have e: "fl (1 - z) = Fin e" and ee: "\<bar>e - (1 - z)\<bar> \<le> 1 / 2 ^ 53"
    by (simp_all add: e_def)
  have te: "temp_efficiency (calculate inp w) = Fin e"
    by (simp add: temp_efficiency_calculate hl e)
  have up: "e \<le> 1 - s * l + 2 / 2 ^ 53" and lo: "1 - s * l - 2 / 2 ^ 53 \<le> e"
    using ez ee unfolding abs_le_iff by linarith+
  have "(1 / 2 ^ 46) * l \<le> (1 / 2 ^ 46) * (1 / 128)"
    using l1 by (intro mult_left_mono) simp_all
  then have g: "(1 / 2 ^ 46) * l \<le> 1 / 2 ^ 53"
    by simp
  have "t - 25 \<le> s + 1 / 2 ^ 46" and "s \<le> (t - 25) + 1 / 2 ^ 46"
    using es unfolding abs_le_iff by linarith+
  then have "(t - 25) * l \<le> (s + 1 / 2 ^ 46) * l" and "s * l \<le> ((t - 25) + 1 / 2 ^ 46) * l"
    using l0 by (simp_all only: mult_right_mono)
  then have "(t - 25) * l \<le> s * l + (1 / 2 ^ 46) * l"
    and "s * l \<le> (t - 25) * l + (1 / 2 ^ 46) * l"
    by (simp_all only: distrib_right)
  with g have s1: "(t - 25) * l \<le> s * l + 1 / 2 ^ 53"
    and s2: "s * l \<le> (t - 25) * l + 1 / 2 ^ 53"
    by linarith+
  have "e - (1 - l * (t - 25)) \<le> 3 / 2 ^ 53"
    using up s1 by (simp add: mult.commute [of l])
  moreover have "- (e - (1 - l * (t - 25))) \<le> 3 / 2 ^ 53"
    using lo s2 by (simp add: mult.commute [of l])
  ultimately have "\<bar>e - (1 - l * (t - 25))\<bar> \<le> 3 / 2 ^ 53"
    unfolding abs_le_iff by (rule conjI)
  then have "\<bar>e - (1 - 5764607523034235 / 1152921504606846976 * (t - 25))\<bar> \<le> 3 / 2 ^ 53"
    unfolding l_def .
  with te show thesis by (rule that)
qed

section \<open>Strict monotonicity\<close>

lemma fl_strict:
  assumes "fl y = Fin b" and "fl x = Fin a"
    and "y + (\<bar>x\<bar> + \<bar>y\<bar>) / 2 ^ 53 + 1 / 2 ^ 1074 < x"
  shows "b < a"
  using rnd_strict [OF assms(3)] fl_Fin_rnd [OF assms(1)] fl_Fin_rnd [OF assms(2)] by simp

lemma fl_rel_error:
  assumes "fl x = Fin a" and "1 / 2 ^ 1022 \<le> x"
  shows "x - x / 2 ^ 53 \<le> a" and "a \<le> x + x / 2 ^ 53"
proof -
  have x: "1 / 2 ^ 1022 \<le> \<bar>x\<bar>" and "\<bar>x\<bar> = x"
    using assms(2) by simp_all
  with rnd_rel_error [OF x] fl_Fin_rnd [OF assms(1)]
  have "\<bar>a - x\<bar> \<le> x / 2 ^ 53" by simp
  then show "x - x / 2 ^ 53 \<le> a" and "a \<le> x + x / 2 ^ 53"
    unfolding abs_le_iff by linarith+
qed

lemma cloud_efficiency_gap:
  assumes "clouds w = Fin c" and "clouds w' = Fin c'"
    and "0 \<le> c" and "c + 1 / 2 ^ 40 \<le> c'" and "c' \<le> 100"
  obtains e e' where "cloud_efficiency (calculate inp w) = Fin e"
    and "cloud_efficiency (calculate inp w') = Fin e'"
    and "e' + 59 / 2 ^ 53 \<le> e" and "1 / 8 \<le> e'" and "e \<le> 1"
proof -
  define l :: rat where "l = 3602879701896397 / 4503599627370496"
  have l0: "0 \<le> l" and l1: "65 / 2 ^ 53 \<le> l / 100 * (1 / 2 ^ 40)"
    by (simp_all add: l_def)
  have c: "c \<le> 100" and c': "0 \<le> c'"
    using assms(3-5) by simp_all
  from cloud_efficiency_error [OF assms(1,3) c, of inp]
  obtain e where e: "cloud_efficiency (calculate inp w) = Fin e"
    and "\<bar>e - (1 - 3602879701896397 / 4503599627370496 * c / 100)\<bar> \<le> 3 / 2 ^ 53" by blast
  then have ee: "1 - l / 100 * c - 3 / 2 ^ 53 \<le> e"
    unfolding abs_le_iff l_def by simp
  from cloud_efficiency_error [OF assms(2) c' assms(5), of inp]
  obtain e' where e': "cloud_efficiency (calculate inp w') = Fin e'"
    and "\<bar>e' - (1 - 3602879701896397 / 4503599627370496 * c' / 100)\<bar> \<le> 3 / 2 ^ 53" by blast
  then have ee': "e' \<le> 1 - l / 100 * c' + 3 / 2 ^ 53"
    unfolding abs_le_iff l_def by simp
  have "l / 100 * (c + 1 / 2 ^ 40) \<le> l / 100 * c'"
    using assms(4) l0 by (intro mult_left_mono) simp_all
  then have "l / 100 * c + l / 100 * (1 / 2 ^ 40) \<le> l / 100 * c'"
    by (simp only: distrib_left)
  with l1 ee ee' have gap: "e' + 59 / 2 ^ 53 \<le> e"
    by linarith
  from cloud_efficiency_range [OF assms(1,3) c, of inp] have "e \<le> 1"
    by (simp add: e)
  moreover from cloud_efficiency_range [OF assms(2) c' assms(5), of inp] have "1 / 8 \<le> e'"
    by (simp add: e')
  ultimately show thesis
    using e e' gap by (intro that [of e e']) simp_all
qed

lemma clouded_power_gap:
  assumes "fl (p * e) = Fin x" and "fl (p * e') = Fin x'"
    and "1 / 2 ^ 900 \<le> p" and "e' + 59 / 2 ^ 53 \<le> e" and "1 / 8 \<le> e'" and "e \<le> 1"
  shows "x' + 57 / 2 ^ 53 * p \<le> x"
proof -
  define y y' where "y = p * e" and "y' = p * e'"
  have p0: "0 \<le> p"
    using assms(3) by (rule order_trans [rotated]) simp
  have "1 / 2 ^ 900 * (1 / 8) \<le> p * e'"
    using assms(3,5) by (intro mult_mono) simp_all
  then have lo': "1 / 2 ^ 1022 \<le> y'"
    unfolding y'_def by (rule order_trans [rotated]) simp
  have "p * (e' + 59 / 2 ^ 53) \<le> p * e"
    using assms(4) p0 by (rule mult_left_mono)
  then have gap: "y' + 59 / 2 ^ 53 * p \<le> y"
    unfolding y_def y'_def by (simp only: distrib_left mult.commute [of p "59 / 2 ^ 53"])
  have "0 \<le> 59 / 2 ^ 53 * p"
    using p0 by simp
  with gap lo' have lo: "1 / 2 ^ 1022 \<le> y" and le: "y' \<le> y"
    by linarith+
  have "p * e \<le> p * 1"
    using assms(6) p0 by (rule mult_left_mono)
  then have up: "y \<le> p" by (simp add: y_def)
  from fl_rel_error [OF assms(1) [folded y_def] lo] have "y - y / 2 ^ 53 \<le> x" by simp
  moreover from fl_rel_error [OF assms(2) [folded y'_def] lo'] have "x' \<le> y' + y' / 2 ^ 53" by simp
  ultimately show ?thesis
    using gap le up by (simp; linarith)
qed

lemma fl_product_strict:
  assumes "fl (x * s) = Fin a" and "fl (x' * s) = Fin a'"
    and "x' * s + g * (p * s) \<le> x * s" and "x * s \<le> p * s" and "0 \<le> x' * s"
    and "1 / 2 ^ 1020 \<le> p * s" and "3 / 2 ^ 53 \<le> g"
  shows "a' < a"
proof -
  define k :: rat where "k = 1 / 2 ^ 1074"
  define y y' q where "y = x * s" and "y' = x' * s" and "q = p * s"
  have q0: "0 \<le> q"
    using assms(6) unfolding q_def by (rule order_trans [rotated]) simp
  have "3 / 2 ^ 53 * q \<le> g * q"
    using assms(7) q0 by (rule mult_right_mono)
  with assms(3) have gap: "y' + 3 / 2 ^ 53 * q \<le> y"
    unfolding y_def y'_def q_def by linarith
  have yq: "y \<le> q" and y'0: "0 \<le> y'"
    using assms(4,5) by (simp_all add: y_def y'_def q_def)
  have "k < 1 / 2 ^ 53 * (1 / 2 ^ 1020)"
    by (simp add: k_def)
  also have "\<dots> \<le> 1 / 2 ^ 53 * q"
    using assms(6) unfolding q_def by (intro mult_left_mono) simp_all
  finally have "k < 1 / 2 ^ 53 * q" .
  with gap yq y'0 q0 have "y' + (y / 2 ^ 53 + y' / 2 ^ 53) + k < y"
    by (simp; linarith)
  moreover from gap y'0 q0 have y0: "0 \<le> y"
    by (simp; linarith)
  ultimately have "y' + (\<bar>y\<bar> + \<bar>y'\<bar>) / 2 ^ 53 + 1 / 2 ^ 1074 < y"
    using y'0 by (simp add: k_def add_divide_distrib)
  then show ?thesis
    unfolding y_def y'_def using assms(1,2) by (intro fl_strict [of "x' * s" a' "x * s" a])
qed

lemma fl_below_double:
  assumes "is_double p" and "\<bar>y\<bar> \<le> p"
  obtains a where "fl y = Fin a"
proof -
  have "\<bar>y\<bar> \<le> 2 ^ 1024 - 2 ^ 971 + 2 ^ 900"
    using double_le_max [OF assms(1)] assms(2) by simp
  then obtain a where "fl y = Fin a"
    by (rule fl_near_max)
  then show thesis by (rule that)
qed

lemma actual_power_strict_clouds:
  assumes "panel_power inp = Fin p" and "is_double p" and "1 / 2 ^ 900 \<le> p"
    and "clouds w = Fin c" and "clouds w' = Fin c'"
    and "0 \<le> c" and "c + 1 / 2 ^ 40 \<le> c'" and "c' \<le> 100"
    and "temp_c w = Fin t" and "temp_c w' = Fin t" and "is_double t" and "t < 225"
  shows "py_lt (actual_power (calculate inp w')) (actual_power (calculate inp w))"
proof -
  have p0: "0 \<le> p"
    using assms(3) by (rule order_trans [rotated]) simp
  have c: "c \<le> 100" and c': "0 \<le> c'"
    using assms(6-8) by simp_all
  from cloud_efficiency_gap [OF assms(4-8), of inp]
  obtain e e' where e: "cloud_efficiency (calculate inp w) = Fin e"
    and e': "cloud_efficiency (calculate inp w') = Fin e'"
    and gap: "e' + 59 / 2 ^ 53 \<le> e" and lo: "1 / 8 \<le> e'" and up: "e \<le> 1" by blast
  from clouded_power_range [OF assms(2) p0 assms(4,6) c, of inp]
  obtain x where x: "fl (p * e) = Fin x" and xp: "x \<le> p"
    by (auto simp: e)
  from clouded_power_range [OF assms(2) p0 assms(5) c' assms(8), of inp]
  obtain x' where x': "fl (p * e') = Fin x'" and x0: "0 \<le> x'"
    by (auto simp: e')
  from clouded_power_gap [OF x x' assms(3) gap lo up]
  have gx: "x' + 57 / 2 ^ 53 * p \<le> x" .
  from temp_efficiency_below_225 [OF assms(9,11,12), of inp] temp_efficiency_le_1 [of inp w]
  obtain s where s: "temp_efficiency (calculate inp w) = Fin s"
    and slo: "1 / 2 ^ 53 \<le> s" and sup: "s \<le> 1"
    by (rule py_le_Fin_cases)
  have s': "temp_efficiency (calculate inp w') = Fin s"
    using temp_efficiency_cong [of w' w inp inp] assms(9,10) s by simp
  have s0: "0 \<le> s"
    using slo by (rule order_trans [rotated]) simp
  have "(x' + 57 / 2 ^ 53 * p) * s \<le> x * s"
    using gx s0 by (rule mult_right_mono)
  then have g: "x' * s + 57 / 2 ^ 53 * (p * s) \<le> x * s"
    by (simp only: distrib_right mult.assoc)
  have xs: "x * s \<le> p * s"
    using xp s0 by (rule mult_right_mono)
  have x's0: "0 \<le> x' * s"
    using x0 s0 by (rule mult_nonneg_nonneg)
  have "1 / 2 ^ 900 * (1 / 2 ^ 53) \<le> p * s"
    using assms(3) slo by (intro mult_mono) simp_all
  then have ps: "1 / 2 ^ 1020 \<le> p * s"
    by (rule order_trans [rotated]) simp
  have "p * s \<le> p * 1"
    using sup p0 by (rule mult_left_mono)
  with xs have "x * s \<le> p" by simp
  moreover from g x's0 ps have "x' * s \<le> x * s"
    by (simp; linarith)
  ultimately have "\<bar>x * s\<bar> \<le> p" and "\<bar>x' * s\<bar> \<le> p"
    using x's0 by simp_all
  then obtain a a' where a: "fl (x * s) = Fin a" and a': "fl (x' * s) = Fin a'"
    using fl_below_double [OF assms(2)] by metis
  have "a' < a"
    using a a' g xs x's0 ps by (rule fl_product_strict) simp
  then show ?thesis
    by (simp add: actual_power_calculate assms(1) e e' x x' s s' a a')
qed

lemma temp_efficiency_gap:
  assumes "temp_c w = Fin t" and "temp_c w' = Fin t'"
    and "25 \<le> t" and "t + 1 / 2 ^ 40 \<le> t'" and "t' \<le> 225"
  obtains s s' where "temp_efficiency (calculate inp w) = Fin s"
    and "temp_efficiency (calculate inp w') = Fin s'"
    and "s' + 34 / 2 ^ 53 \<le> s" and "0 \<le> s'" and "s \<le> 1"
proof -
  define l :: rat where "l = 5764607523034235 / 1152921504606846976"
  define d d' where "d = t - 25" and "d' = t' - 25"
  have l0: "0 \<le> l" and l1: "40 / 2 ^ 53 \<le> l * (1 / 2 ^ 40)"
    by (simp_all add: l_def)
  have t: "t \<le> 225" and t': "25 \<le> t'"
    using assms(3-5) by simp_all
  from temp_efficiency_error [OF assms(1,3) t, of inp]
  obtain s where s: "temp_efficiency (calculate inp w) = Fin s"
    and b: "\<bar>s - (1 - 5764607523034235 / 1152921504606846976 * (t - 25))\<bar> \<le> 3 / 2 ^ 53"
    by blast
  from b have "\<bar>s - (1 - l * d)\<bar> \<le> 3 / 2 ^ 53"
    unfolding l_def d_def .
  then have es: "1 - l * d - 3 / 2 ^ 53 \<le> s"
    unfolding abs_le_iff by linarith
  from temp_efficiency_error [OF assms(2) t' assms(5), of inp]
  obtain s' where s': "temp_efficiency (calculate inp w') = Fin s'"
    and b': "\<bar>s' - (1 - 5764607523034235 / 1152921504606846976 * (t' - 25))\<bar> \<le> 3 / 2 ^ 53"
    by blast
  from b' have "\<bar>s' - (1 - l * d')\<bar> \<le> 3 / 2 ^ 53"
    unfolding l_def d'_def .
  then have es': "s' \<le> 1 - l * d' + 3 / 2 ^ 53"
    unfolding abs_le_iff by linarith
  have "d + 1 / 2 ^ 40 \<le> d'"
    using assms(4) by (simp add: d_def d'_def)
  then have "l * (d + 1 / 2 ^ 40) \<le> l * d'"
    using l0 by (rule mult_left_mono)
  then have "l * d + l * (1 / 2 ^ 40) \<le> l * d'"
    by (simp only: distrib_left)
  with l1 es es' have gap: "s' + 34 / 2 ^ 53 \<le> s"
    by linarith
  have "py_le (temp_c w') (Fin 225)"
    using assms(2,5) by simp
  from temp_efficiency_nonneg [OF this, of inp] have "0 \<le> s'"
    by (simp add: s')
  moreover from temp_efficiency_le_1 [of inp w] have "s \<le> 1"
    by (simp add: s)
  ultimately show thesis
    using s s' gap by (intro that [of s s']) simp_all
qed

lemma actual_power_strict_temp:
  assumes "panel_power inp = Fin p" and "is_double p" and "1 / 2 ^ 900 \<le> p"
    and "clouds w = Fin c" and "clouds w' = Fin c" and "0 \<le> c" and "c \<le> 100"
    and "temp_c w = Fin t" and "temp_c w' = Fin t'"
    and "25 \<le> t" and "t + 1 / 2 ^ 40 \<le> t'" and "t' \<le> 225"
  shows "py_lt (actual_power (calculate inp w')) (actual_power (calculate inp w))"
proof -
  have p0: "0 \<le> p"
    using assms(3) by (rule order_trans [rotated]) simp
  from clouded_power_range [OF assms(2) p0 assms(4,6,7), of inp]
  obtain x where x: "py_mul (Fin p) (cloud_efficiency (calculate inp w)) = Fin x"
    and "0 \<le> x" and xp: "x \<le> p" by blast
  have x': "py_mul (Fin p) (cloud_efficiency (calculate inp w')) = Fin x"
    using cloud_efficiency_cong [of w w' inp inp] x assms(4,5) by simp
  have "py_le (Fin (1 / 2 ^ 53)) (Fin (900719925474099 / 4503599627370496))"
    by simp
  then have "py_le (Fin (1 / 2 ^ 53)) (cloud_efficiency (calculate inp w))"
    using cloud_efficiency_range(1) [OF assms(4,6,7), of inp] by (rule py_le_trans)
  from clouded_power_pos [OF this assms(3)] have xlo: "1 / 2 ^ 1000 \<le> x"
    by (simp add: x)
  then have x0: "0 \<le> x"
    by (rule order_trans [rotated]) simp
  from temp_efficiency_gap [OF assms(8-12), of inp]
  obtain s s' where s: "temp_efficiency (calculate inp w) = Fin s"
    and s': "temp_efficiency (calculate inp w') = Fin s'"
    and gap: "s' + 34 / 2 ^ 53 \<le> s" and s'0: "0 \<le> s'" and sup: "s \<le> 1" by blast
  have "(s' + 34 / 2 ^ 53) * x \<le> s * x"
    using gap x0 by (rule mult_right_mono)
  then have g: "s' * x + 34 / 2 ^ 53 * (1 * x) \<le> s * x"
    by (simp only: distrib_right mult.assoc mult_1)
  have sx: "s * x \<le> 1 * x"
    using sup x0 by (rule mult_right_mono)
  have s'x0: "0 \<le> s' * x"
    using s'0 x0 by (rule mult_nonneg_nonneg)
  have x1: "1 / 2 ^ 1020 \<le> 1 * x"
    using xlo by (simp add: order_trans [rotated])
  have "s * x \<le> p"
    using sx xp by simp
  moreover from g s'x0 x0 have "s' * x \<le> s * x"
    by (simp; linarith)
  ultimately have "\<bar>s * x\<bar> \<le> p" and "\<bar>s' * x\<bar> \<le> p"
    using s'x0 by simp_all
  then obtain a a' where a: "fl (s * x) = Fin a" and a': "fl (s' * x) = Fin a'"
    using fl_below_double [OF assms(2)] by metis
  have "a' < a"
    using a a' g sx s'x0 x1 by (rule fl_product_strict) simp
  then show ?thesis
    using a a' by (simp add: actual_power_calculate assms(1) x x' s s' mult.commute)
qed

section \<open>Floats are doubles\<close>

lemma round_half_even_abs_le:
  assumes "\<bar>q\<bar> \<le> of_int m"
  shows "\<bar>round_half_even q\<bar> \<le> m"
proof -
  have "q \<le> of_int m" and "of_int (- m) \<le> q"
    using assms by (simp_all add: abs_le_iff)
  then have "round_half_even q \<le> m" and "- m \<le> round_half_even q"
    using round_half_even_mono [of q "of_int m"] round_half_even_mono [of "of_int (- m)" q]
    by (simp_all only: round_half_even_of_int)
  then show ?thesis by simp
qed

lemma round_half_even_abs_ge:
  assumes "of_int m \<le> \<bar>q\<bar>" and "0 \<le> m"
  shows "m \<le> \<bar>round_half_even q\<bar>"
proof (cases "0 \<le> q")
  case True
  with assms(1) have "of_int m \<le> q" by simp
  then have "m \<le> round_half_even q"
    using round_half_even_mono [of "of_int m" q] by (simp only: round_half_even_of_int)
  then show ?thesis by simp
next
  case False
  with assms(1) have "q \<le> of_int (- m)" by simp
  then have "round_half_even q \<le> - m"
    using round_half_even_mono [of q "of_int (- m)"] by (simp only: round_half_even_of_int)
  then show ?thesis by simp
qed

text \<open>A rounded number is not changed by rounding it again.\<close>

lemma rnd_idem:
  assumes "\<bar>rnd x\<bar> < 2 ^ 1024"
  shows "rnd (rnd x) = rnd x"
proof -
  define e where "e = ulp_exp x"
  define n where "n = round_half_even (x / 2 powi e)"
  define y :: rat where "y = of_int n * 2 powi e"
  have y: "rnd x = y"
    by (simp add: rnd_def e_def n_def y_def)
  have er: "- 1074 \<le> e" "e \<le> 971"
    using ulp_exp_range [of x] by (simp_all add: e_def)
  have ay: "\<bar>y\<bar> = of_int \<bar>n\<bar> * 2 powi e"
    by (simp add: y_def abs_mult)
  have aq: "\<bar>x / 2 powi e\<bar> = \<bar>x\<bar> / 2 powi e"
    by simp
  have nub: "\<bar>n\<bar> \<le> 2 ^ 53"
  proof (cases "e < 971")
    case True
    then have "\<bar>x\<bar> < 2 powi (e + 53)"
      unfolding e_def by (rule ulp_exp_upper)
    then have "\<bar>x / 2 powi e\<bar> \<le> of_int (2 ^ 53)"
      unfolding aq two_powi_53 by (simp add: pos_divide_le_eq)
    then show ?thesis
      unfolding n_def by (rule round_half_even_abs_le)
  next
    case False
    with er have e: "e = 971" by simp
    from assms have "of_int \<bar>n\<bar> * (2::rat) ^ 971 < of_int (2 ^ 53) * 2 ^ 971"
      unfolding y ay e by simp
    then have "(of_int \<bar>n\<bar> :: rat) < of_int (2 ^ 53)"
      by (simp only: mult_less_cancel_right_pos zero_less_power zero_less_numeral)
    then have "\<bar>n\<bar> < 2 ^ 53"
      by (simp only: of_int_less_iff)
    then show ?thesis by simp
  qed
  have nlb: "e = - 1074 \<or> 2 ^ 52 \<le> \<bar>n\<bar>"
  proof (cases "e = - 1074")
    case False
    with er have "2 powi (e + 52) \<le> \<bar>x\<bar>"
      unfolding e_def by (intro ulp_exp_lower) simp
    then have "of_int (2 ^ 52) \<le> \<bar>x / 2 powi e\<bar>"
      unfolding aq two_powi_52 by (simp add: pos_le_divide_eq)
    then have "2 ^ 52 \<le> \<bar>n\<bar>"
      unfolding n_def by (rule round_half_even_abs_ge) simp
    then show ?thesis ..
  qed simp
  show ?thesis
  proof (cases "\<bar>n\<bar> < 2 ^ 53")
    case True
    then have "(of_int \<bar>n\<bar> :: rat) < of_int (2 ^ 53)"
      by (simp only: of_int_less_iff)
    then have hi: "\<bar>y\<bar> < 2 powi (e + 53)"
      unfolding ay two_powi_53 by (intro mult_strict_right_mono) simp_all
    have lo: "e = - 1074 \<or> 2 powi (e + 52) \<le> \<bar>y\<bar>"
    proof (cases "e = - 1074")
      case False
      with nlb have "2 ^ 52 \<le> \<bar>n\<bar>" by simp
      then have "(of_int (2 ^ 52) :: rat) \<le> of_int \<bar>n\<bar>"
        by (simp only: of_int_le_iff)
      then have "2 powi (e + 52) \<le> \<bar>y\<bar>"
        unfolding ay two_powi_52 by (intro mult_right_mono) simp_all
      then show ?thesis ..
    qed simp
    have "rnd y = of_int (round_half_even (y / 2 powi e)) * 2 powi e"
      using er lo hi by (intro rnd_eval) simp_all
    also have "y / 2 powi e = of_int n"
      by (simp add: y_def)
    finally show ?thesis
      unfolding y by (simp add: round_half_even_of_int y_def)
  next
    case False
    with nub have n: "\<bar>n\<bar> = 2 ^ 53" by simp
    have e: "e < 971"
    proof (rule ccontr)
      assume "\<not> e < 971"
      with er have "e = 971" by simp
      with assms show False
        unfolding y ay n by simp
    qed
    have ay': "\<bar>y\<bar> = 2 powi (e + 53)"
      unfolding ay n two_powi_53 by simp
    have "(2::rat) powi (e + 1 + 52) = 2 powi (e + 53)"
      by (simp add: algebra_simps)
    then have lo: "2 powi (e + 1 + 52) \<le> \<bar>y\<bar>"
      unfolding ay' by simp
    have "(2::rat) powi (e + 53 + 1) = 2 powi (e + 53) * 2 powi 1"
      by (rule power_int_add) simp
    then have "(2::rat) powi (e + 1 + 53) = 2 * 2 powi (e + 53)"
      by (simp add: algebra_simps)
    then have hi: "\<bar>y\<bar> < 2 powi (e + 1 + 53)"
      unfolding ay' by simp
    have "- 1074 \<le> e + 1" and "e + 1 \<le> 971"
      using er e by simp_all
    then have "rnd y = of_int (round_half_even (y / 2 powi (e + 1))) * 2 powi (e + 1)"
      using lo hi by (intro rnd_eval) (simp_all only: simp_thms)
    also have "y / 2 powi (e + 1) = of_int (n div 2)"
    proof -
      from n have "n = 2 ^ 53 \<or> n = - (2 ^ 53)" by linarith
      then show ?thesis
        by (auto simp: y_def power_int_add)
    qed
    also have "of_int (round_half_even (of_int (n div 2))) * (2::rat) powi (e + 1) = y"
    proof -
      from n have "n = 2 ^ 53 \<or> n = - (2 ^ 53)" by linarith
      then show ?thesis
        by (auto simp: y_def power_int_add round_half_even_of_int)
    qed
    finally show ?thesis
      unfolding y .
  qed
qed

lemma fl_is_double:
  assumes "fl x = Fin y"
  shows "is_double y"
proof -
  from assms have y: "y = rnd x" and "\<bar>rnd x\<bar> < 2 ^ 1024"
    by (simp_all add: fl_def Let_def abs_less_iff split: if_splits)
  then show ?thesis
    unfolding is_double_def by (simp add: rnd_idem)
qed

lemma double_smallest_multiple:
  assumes "is_double x"
  obtains m :: int where "x = of_int m * 2 powi (- 1074)"
proof -
  define g :: rat where "g = 2 powi (- 1074)"
  obtain n :: nat where n: "ulp_exp x = - 1074 + int n"
    using ulp_exp_range [of x] zle_iff_zadd by blast
  define r where "r = round_half_even (x / 2 powi ulp_exp x)"
  have "(2::rat) powi (- 1074 + int n) = 2 powi (- 1074) * 2 powi int n"
    by (rule power_int_add) simp
  then have "(2::rat) powi (- 1074 + int n) = g * 2 ^ n"
    by (simp only: g_def power_int_of_nat)
  with double_grid [OF assms] have "x = of_int r * (g * 2 ^ n)"
    unfolding r_def n by simp
  also have "\<dots> = of_int (r * 2 ^ n) * g"
    by simp
  finally show thesis
    unfolding g_def by (rule that)
qed

text \<open>Two different doubles differ by at least the smallest positive double, so their
  float difference is not zero.\<close>

lemma fl_difference_pos:
  assumes "is_double u" and "is_double m" and "m < u"
  shows "py_lt (Fin 0) (fl (u - m))"
proof -
  define g :: rat where "g = 2 powi (- 1074)"
  have g0: "0 < g" and g: "g = 1 / 2 ^ 1074"
    by (simp_all add: g_def power_int_minus field_simps)
  from assms(1) obtain a :: int where a: "u = of_int a * g"
    unfolding g_def by (rule double_smallest_multiple)
  from assms(2) obtain b :: int where b: "m = of_int b * g"
    unfolding g_def by (rule double_smallest_multiple)
  from assms(3) have "(of_int b :: rat) < of_int a"
    unfolding a b by (simp only: mult_less_cancel_right_pos [OF g0])
  then have "b < a"
    by (simp only: of_int_less_iff)
  then have "1 \<le> a - b" by simp
  then have "(of_int 1 :: rat) \<le> of_int (a - b)"
    by (simp only: of_int_le_iff)
  then have "of_int 1 * g \<le> (of_int (a - b) :: rat) * g"
    using g0 by (intro mult_right_mono) simp_all
  also have "\<dots> = u - m"
    unfolding a b by (simp add: left_diff_distrib)
  finally have "1 / 2 ^ 1074 \<le> u - m"
    unfolding g by simp
  then show ?thesis by (rule fl_gt_zero)
qed

lemma py_le_not_lt: "py_le a b \<Longrightarrow> \<not> py_lt b a"
  by (cases a; cases b) simp_all

lemma py_max_sub_zero:
  assumes "py_le a b"
  shows "py_max (Fin 0) (py_sub a b) = Fin 0"
proof (cases a)
  case (Fin x)
  show ?thesis
  proof (cases b)
    case (Fin y)
    with assms \<open>a = Fin x\<close> have "x - y \<le> 0" by simp
    then have "\<not> py_lt (Fin 0) (fl (x - y))"
      by (intro py_le_not_lt fl_nonpos)
    then show ?thesis
      by (simp add: Fin \<open>a = Fin x\<close> py_max_def py_gt_def)
  qed (use assms Fin in \<open>simp_all add: py_max_def py_gt_def\<close>)
qed (use assms in \<open>cases b; simp_all add: py_max_def py_gt_def\<close>)+

lemma py_mul_zero_not_neg: "\<not> py_lt (py_mul (Fin 0) t) (Fin 0)"
  by (cases t) (simp_all add: fl_zero)

lemma monthly_production_double:
  assumes "monthly_production (calculate inp w) = Fin m"
  shows "is_double m"
proof (cases "daily_production (calculate inp w)")
  case (Fin d)
  with assms have "fl (d * 30) = Fin m"
    by (simp add: monthly_production_calculate)
  then show ?thesis by (rule fl_is_double)
qed (use assms in \<open>simp_all add: monthly_production_calculate\<close>)

section \<open>The smallest rated power\<close>

lemma round_half_even_near_one:
  assumes "1 / 2 < q" and "q < 3 / 2"
  shows "round_half_even q = 1"
proof (cases "q < 1")
  case True
  with assms have "\<lfloor>q\<rfloor> = 0"
    by (intro floor_unique) simp_all
  with assms show ?thesis
    by (simp add: round_half_even_def Let_def)
next
  case False
  with assms have "\<lfloor>q\<rfloor> = 1"
    by (intro floor_unique) simp_all
  with assms show ?thesis
    by (simp add: round_half_even_def Let_def)
qed

lemma fl_smallest:
  assumes "1 / 2 < e" and "e < 3 / 2"
  shows "fl (1 / 2 ^ 1074 * e) = Fin (1 / 2 ^ 1074)"
proof -
  define g :: rat where "g = 2 powi (- 1074)"
  have g0: "0 < g" and g: "1 / 2 ^ 1074 = g"
    by (simp_all add: g_def power_int_minus field_simps)
  have "g * e < g * 2"
    using assms(2) g0 by (intro mult_strict_left_mono) simp_all
  also have "\<dots> \<le> 2 powi (- 1074 + 53)"
    by (simp add: g_def)
  finally have "\<bar>g * e\<bar> < 2 powi (- 1074 + 53)"
    using assms(1) g0 by (simp add: abs_mult)
  then have "rnd (g * e) = of_int (round_half_even (g * e / 2 powi (- 1074))) * 2 powi (- 1074)"
    by (intro rnd_eval) simp_all
  also have "g * e / 2 powi (- 1074) = e"
    unfolding g_def by simp
  finally have "rnd (g * e) = g"
    unfolding g_def by (simp add: round_half_even_near_one [OF assms])
  then show ?thesis
    unfolding g by (simp add: fl_def g_def)
qed

text \<open>With the smallest positive double as rated power, the actual power is that same
  double over a wide range of weather: both products round back to it.\<close>

lemma smallest_power_plateau:
  assumes "panel_power inp = Fin (1 / 2 ^ 1074)"
    and "clouds w = Fin c" and "0 \<le> c" and "c \<le> 50"
    and "temp_c w = Fin t" and "25 \<le> t" and "t \<le> 100"
  shows "actual_power (calculate inp w) = Fin (1 / 2 ^ 1074)"
proof -
  define l :: rat where "l = 3602879701896397 / 4503599627370496"
  define k :: rat where "k = 5764607523034235 / 1152921504606846976"
  define q r where "q = l * c" and "r = k * (t - 25)"
  have l: "0 \<le> l" "l * 50 \<le> 41" and k: "0 \<le> k" "k * 75 \<le> 2 / 5"
    by (simp_all add: l_def k_def)
  have c: "c \<le> 100" and t: "t \<le> 225"
    using assms(4,7) by simp_all
  have "l * c \<le> l * 50" and "k * (t - 25) \<le> k * 75"
    using l(1) k(1) assms(4,7) by (simp_all add: mult_left_mono)
  with l(2) k(2) have q: "0 \<le> q" "q \<le> 41" and r: "0 \<le> r" "r \<le> 2 / 5"
    using l(1) k(1) assms(3,6) by (simp_all add: q_def r_def)
  from cloud_efficiency_error [OF assms(2,3) c, of inp]
  obtain e where e: "cloud_efficiency (calculate inp w) = Fin e"
    and b: "\<bar>e - (1 - 3602879701896397 / 4503599627370496 * c / 100)\<bar> \<le> 3 / 2 ^ 53"
    by blast
  from b have be: "\<bar>e - (1 - q / 100)\<bar> \<le> 3 / 2 ^ 53"
    unfolding l_def q_def .
  have e1: "1 / 2 < e"
    using be q unfolding abs_le_iff by (simp; linarith)
  have e2: "e < 3 / 2"
    using be q unfolding abs_le_iff by (simp; linarith)
  from temp_efficiency_error [OF assms(5,6) t, of inp]
  obtain s where s: "temp_efficiency (calculate inp w) = Fin s"
    and b': "\<bar>s - (1 - 5764607523034235 / 1152921504606846976 * (t - 25))\<bar> \<le> 3 / 2 ^ 53"
    by blast
  from b' have bs: "\<bar>s - (1 - r)\<bar> \<le> 3 / 2 ^ 53"
    unfolding k_def r_def .
  have s1: "1 / 2 < s"
    using bs r unfolding abs_le_iff by (simp; linarith)
  have s2: "s < 3 / 2"
    using bs r unfolding abs_le_iff by (simp; linarith)
  have "actual_power (calculate inp w) = py_mul (py_mul (Fin (1 / 2 ^ 1074)) (Fin e)) (Fin s)"
    unfolding actual_power_calculate assms(1) e s ..
  also have "\<dots> = py_mul (fl (1 / 2 ^ 1074 * e)) (Fin s)"
    by (simp only: py_mul.simps)
  also have "\<dots> = py_mul (Fin (1 / 2 ^ 1074)) (Fin s)"
    by (simp only: fl_smallest [OF e1 e2])
  also have "\<dots> = fl (1 / 2 ^ 1074 * s)"
    by (simp only: py_mul.simps)
  also have "\<dots> = Fin (1 / 2 ^ 1074)"
    by (rule fl_smallest [OF s1 s2])
  finally show ?thesis .
qed

section \<open>The claims\<close>

lemmas calculate_fields = cloud_efficiency_calculate heat_loss_calculate
  temp_efficiency_calculate actual_power_calculate daily_production_calculate
  monthly_production_calculate old_bill_calculate net_usage_calculate new_bill_calculate
  savings_calculate

lemma full_cloud_values:
  "cloud_efficiency (calculate default_inputs (snapshot 100 25)) = Fin (900719925474099 / 4503599627370496)"
  "heat_loss (calculate default_inputs (snapshot 100 25)) = Fin 0"
  "temp_efficiency (calculate default_inputs (snapshot 100 25)) = Fin 1"
  "actual_power (calculate default_inputs (snapshot 100 25)) = Fin (4503599627370495 / 4503599627370496)"
  "daily_production (calculate default_inputs (snapshot 100 25)) = Fin (5629499534213119 / 1125899906842624)"
  "monthly_production (calculate default_inputs (snapshot 100 25)) = Fin (5277655813324799 / 35184372088832)"
  "old_bill (calculate default_inputs (snapshot 100 25)) = Fin 2800"
  "net_usage (calculate default_inputs (snapshot 100 25)) = Fin (7036874417766401 / 35184372088832)"
  "new_bill (calculate default_inputs (snapshot 100 25)) = Fin (7036874417766401 / 4398046511104)"
  "savings (calculate default_inputs (snapshot 100 25)) = Fin (5277655813324799 / 4398046511104)"
  by (simp_all add: calculate_def Let_def default_inputs_def snapshot_def lit_def py_max_def
      py_gt_def fl_vals)

lemma py_max_ge: "py_ge (py_max (Fin 0) a) (Fin 0)"
  by (cases a) (simp_all add: py_max_def py_gt_def py_ge_def)

text \<open>
  C5: with the default form values under full cloud cover at 25 degrees Celsius the script
  computes the doubles 0.19999999999999996, 0.9999999999999998, 149.99999999999997,
  200.00000000000003, 1600.0000000000002 and 1199.9999999999998, which are the values
  0.2, 1, 150, 200, 1600 and 1200 up to rounding.
\<close>

theorem full_cloud_scenario:
  "cloud_efficiency (calculate default_inputs (snapshot 100 25))
     = Fin (900719925474099 / 4503599627370496) \<and>
   actual_power (calculate default_inputs (snapshot 100 25))
     = Fin (4503599627370495 / 4503599627370496) \<and>
   monthly_production (calculate default_inputs (snapshot 100 25))
     = Fin (5277655813324799 / 35184372088832) \<and>
   net_usage (calculate default_inputs (snapshot 100 25))
     = Fin (7036874417766401 / 35184372088832) \<and>
   new_bill (calculate default_inputs (snapshot 100 25))
     = Fin (7036874417766401 / 4398046511104) \<and>
   savings (calculate default_inputs (snapshot 100 25))
     = Fin (5277655813324799 / 4398046511104) \<and>
   close_to (cloud_efficiency (calculate default_inputs (snapshot 100 25))) 0.2 (1 / 10 ^ 12) \<and>
   close_to (actual_power (calculate default_inputs (snapshot 100 25))) 1 (1 / 10 ^ 12) \<and>
   close_to (monthly_production (calculate default_inputs (snapshot 100 25))) 150 (1 / 10 ^ 12) \<and>
   close_to (net_usage (calculate default_inputs (snapshot 100 25))) 200 (1 / 10 ^ 12) \<and>
   close_to (new_bill (calculate default_inputs (snapshot 100 25))) 1600 (1 / 10 ^ 12) \<and>
   close_to (savings (calculate default_inputs (snapshot 100 25))) 1200 (1 / 10 ^ 12)"
  by (simp add: full_cloud_values)

theorem full_cloud_scenario_not_exact:
  "cloud_efficiency (calculate default_inputs (snapshot 100 25)) \<noteq> Fin 0.2 \<and>
   cloud_efficiency (calculate default_inputs (snapshot 100 25)) \<noteq> lit 0.2 \<and>
   actual_power (calculate default_inputs (snapshot 100 25)) \<noteq> Fin 1 \<and>
   monthly_production (calculate default_inputs (snapshot 100 25)) \<noteq> Fin 150 \<and>
   net_usage (calculate default_inputs (snapshot 100 25)) \<noteq> Fin 200 \<and>
   new_bill (calculate default_inputs (snapshot 100 25)) \<noteq> Fin 1600 \<and>
   savings (calculate default_inputs (snapshot 100 25)) \<noteq> Fin 1200"
  by (simp add: full_cloud_values lit_def fl_vals)

text \<open>
  C6: for every temperature at or below 25 degrees Celsius (also minus infinity) the heat
  loss is exactly 0 and the temperature efficiency exactly 1: no bonus below the rating
  temperature.
\<close>

theorem no_bonus_below_rating_temperature:
  assumes "py_le (temp_c w) (Fin 25)"
  shows "heat_loss (calculate inp w) = Fin 0 \<and> temp_efficiency (calculate inp w) = Fin 1"
  using heat_loss_cool [OF assms] by (simp add: temp_efficiency_calculate fl_one)

text \<open>
  C1: at the reference condition (no clouds, 25 degrees Celsius) the actual power is exactly
  the rated power, for every positive rated power that is a finite double.
\<close>

theorem reference_condition_no_derating:
  assumes "is_double p" and "0 < p"
    and "panel_power inp = Fin p" and "clouds w = Fin 0" and "temp_c w = Fin 25"
  shows "actual_power (calculate inp w) = Fin p"
proof -
  have ce: "cloud_efficiency (calculate inp w) = Fin 1"
    using assms(4) by (simp add: cloud_efficiency_calculate lit_4_5 fl_zero fl_one)
  have "py_le (temp_c w) (Fin 25)"
    using assms(5) by simp
  then have "heat_loss (calculate inp w) = Fin 0"
    by (rule heat_loss_cool)
  then have te: "temp_efficiency (calculate inp w) = Fin 1"
    by (simp add: temp_efficiency_calculate fl_one)
  show ?thesis
    using assms(1,3) by (simp add: actual_power_calculate ce te fl_double)
qed

theorem reference_condition_no_derating_witness:
  "is_double 5 \<and> (0::rat) < 5 \<and>
   actual_power (calculate \<lparr>city = ''London'', panel_power = Fin 5, monthly_usage = Fin 350,
       tariff = Fin 8\<rparr> \<lparr>clouds = Fin 0, temp_c = Fin 25, lat = Fin 0, lon = Fin 0\<rparr>) = Fin 5"
  using reference_condition_no_derating [of 5
      "\<lparr>city = ''London'', panel_power = Fin 5, monthly_usage = Fin 350, tariff = Fin 8\<rparr>"
      "\<lparr>clouds = Fin 0, temp_c = Fin 25, lat = Fin 0, lon = Fin 0\<rparr>"]
    is_double_5
  by simp

theorem no_bonus_below_rating_temperature_witness:
  "py_le (Fin 10) (Fin 25) \<and>
   heat_loss (calculate \<lparr>city = ''London'', panel_power = Fin 5, monthly_usage = Fin 350,
       tariff = Fin 8\<rparr> \<lparr>clouds = Fin 40, temp_c = Fin 10, lat = Fin 0, lon = Fin 0\<rparr>) = Fin 0 \<and>
   temp_efficiency (calculate \<lparr>city = ''London'', panel_power = Fin 5, monthly_usage = Fin 350,
       tariff = Fin 8\<rparr> \<lparr>clouds = Fin 40, temp_c = Fin 10, lat = Fin 0, lon = Fin 0\<rparr>) = Fin 1"
  using no_bonus_below_rating_temperature [of
      "\<lparr>clouds = Fin 40, temp_c = Fin 10, lat = Fin 0, lon = Fin 0\<rparr>"
      "\<lparr>city = ''London'', panel_power = Fin 5, monthly_usage = Fin 350, tariff = Fin 8\<rparr>"]
  by simp

text \<open>
  C10: on a cloud cover between 0 and 100 the cloud efficiency lies between
  0.19999999999999996 (the double \<open>1 - 0.8\<close>) and 1; the temperature efficiency is at most 1
  for every temperature; hence with a rated power that is not negative, a cloud cover between
  0 and 100 and a temperature of at most 225 degrees the actual power is at most the rated
  power.
\<close>

theorem efficiency_bounds:
  "(\<forall>c. clouds w = Fin c \<and> 0 \<le> c \<and> c \<le> 100 \<longrightarrow>
      py_le (Fin (900719925474099 / 4503599627370496)) (cloud_efficiency (calculate inp w)) \<and>
      py_le (cloud_efficiency (calculate inp w)) (Fin 1)) \<and>
   py_le (temp_efficiency (calculate inp w)) (Fin 1) \<and>
   (\<forall>p c. panel_power inp = Fin p \<and> is_double p \<and> 0 \<le> p \<and>
      clouds w = Fin c \<and> 0 \<le> c \<and> c \<le> 100 \<and> py_le (temp_c w) (Fin 225) \<longrightarrow>
      py_le (actual_power (calculate inp w)) (Fin p))"
  using cloud_efficiency_range [of w _ inp] temp_efficiency_le_1 [of inp w]
    actual_power_le_rated [of inp _ w]
  by blast

theorem efficiency_bounds_witness:
  "clouds (snapshot 40 30) = Fin 40 \<and> (0::rat) \<le> 40 \<and> (40::rat) \<le> 100 \<and>
   panel_power default_inputs = Fin 5 \<and> is_double 5 \<and> (0::rat) \<le> 5 \<and>
   py_le (temp_c (snapshot 40 30)) (Fin 225) \<and>
   py_le (Fin (900719925474099 / 4503599627370496))
     (cloud_efficiency (calculate default_inputs (snapshot 40 30))) \<and>
   py_le (cloud_efficiency (calculate default_inputs (snapshot 40 30))) (Fin 1) \<and>
   py_le (temp_efficiency (calculate default_inputs (snapshot 40 30))) (Fin 1) \<and>
   py_le (actual_power (calculate default_inputs (snapshot 40 30))) (Fin 5)"
proof -
  have h: "clouds (snapshot 40 30) = Fin 40 \<and> (0::rat) \<le> 40 \<and> (40::rat) \<le> 100"
    by simp
  have k: "panel_power default_inputs = Fin 5 \<and> is_double 5 \<and> (0::rat) \<le> 5 \<and>
      py_le (temp_c (snapshot 40 30)) (Fin 225)"
    by (simp add: default_inputs_def is_double_5)
  from efficiency_bounds [of "snapshot 40 30" default_inputs] h k
  show ?thesis by blast
qed

theorem cloud_efficiency_below_a_fifth:
  "clouds (snapshot 100 25) = Fin 100 \<and>
   \<not> py_le (Fin 0.2) (cloud_efficiency (calculate default_inputs (snapshot 100 25))) \<and>
   \<not> py_ge (cloud_efficiency (calculate default_inputs (snapshot 100 25))) (lit 0.2)"
  by (simp add: full_cloud_values py_ge_def lit_def fl_vals)

lemma py_max_le: "py_le a (Fin u) \<Longrightarrow> 0 \<le> u \<Longrightarrow> py_le (py_max (Fin 0) a) (Fin u)"
  by (cases a) (simp_all add: py_max_def py_gt_def)

lemma net_usage_range:
  assumes "monthly_usage inp = Fin u" and "is_double u" and "0 \<le> u"
    and "py_ge (monthly_production (calculate inp w)) (Fin 0)"
  obtains n where "net_usage (calculate inp w) = Fin n" and "0 \<le> n" and "n \<le> u"
proof -
  have "py_le (Fin 0) (monthly_production (calculate inp w))"
    using assms(4) by (simp add: py_ge_def)
  from py_sub_left_antimono [OF this, of u]
  have "py_le (py_sub (Fin u) (monthly_production (calculate inp w))) (Fin u)"
    using assms(2) by (simp add: fl_double)
  then have "py_le (net_usage (calculate inp w)) (Fin u)"
    unfolding net_usage_calculate assms(1) using assms(3) by (rule py_max_le)
  with py_max_nonneg [of "py_sub (monthly_usage inp) (monthly_production (calculate inp w))"]
  obtain n where "net_usage (calculate inp w) = Fin n" and "0 \<le> n" and "n \<le> u"
    unfolding net_usage_calculate by (rule py_le_Fin_cases)
  then show thesis by (rule that)
qed

lemma savings_nonneg:
  assumes "monthly_usage inp = Fin u" and "is_double u" and "0 \<le> u"
    and "tariff inp = Fin t" and "0 \<le> t"
    and "py_ge (monthly_production (calculate inp w)) (Fin 0)"
    and "old_bill (calculate inp w) = Fin b"
  shows "py_ge (savings (calculate inp w)) (Fin 0)"
proof -
  from net_usage_range [OF assms(1-3,6)]
  obtain n where n: "net_usage (calculate inp w) = Fin n" and "0 \<le> n" and "n \<le> u"
    by blast
  have old: "fl (u * t) = Fin b"
    using assms(7) by (simp add: old_bill_calculate assms(1,4))
  have "0 \<le> n * t" and "n * t \<le> u * t"
    using \<open>0 \<le> n\<close> \<open>n \<le> u\<close> assms(5) by (simp_all add: mult_right_mono)
  then have "py_le (Fin 0) (fl (n * t))" and "py_le (fl (n * t)) (Fin b)"
    using fl_mono [of 0 "n * t"] fl_mono [of "n * t" "u * t"] by (simp_all add: fl_zero old)
  then obtain c where c: "fl (n * t) = Fin c" and "0 \<le> c" and "c \<le> b"
    by (rule py_le_Fin_cases)
  have "py_le (Fin 0) (fl (b - c))"
    using fl_mono [of 0 "b - c"] \<open>c \<le> b\<close> by (simp add: fl_zero)
  then show ?thesis
    by (simp add: savings_calculate new_bill_calculate assms(4,7) n c py_ge_def)
qed

text \<open>
  C3: the savings are the old bill minus the new bill; with a usage and a tariff that are
  not negative, a production that is not negative and an old bill that is finite (the product
  of usage and tariff does not overflow) the savings are not negative.
\<close>

theorem savings_identity_and_sign:
  "savings (calculate inp w) = py_sub (old_bill (calculate inp w)) (new_bill (calculate inp w)) \<and>
   (\<forall>u t b. monthly_usage inp = Fin u \<and> is_double u \<and> 0 \<le> u \<and>
      tariff inp = Fin t \<and> 0 \<le> t \<and>
      py_ge (monthly_production (calculate inp w)) (Fin 0) \<and>
      old_bill (calculate inp w) = Fin b \<longrightarrow>
      py_ge (savings (calculate inp w)) (Fin 0))"
  using savings_calculate [of inp w] savings_nonneg [of inp _ _ w] by blast

lemma is_double_350: "is_double 350"
  by (simp add: is_double_def rnd_eval [of "- 44"] round_half_even_def Let_def)

theorem savings_identity_and_sign_witness:
  "monthly_usage default_inputs = Fin 350 \<and> is_double 350 \<and> (0::rat) \<le> 350 \<and>
   tariff default_inputs = Fin 8 \<and> (0::rat) \<le> 8 \<and>
   py_ge (monthly_production (calculate default_inputs (snapshot 100 25))) (Fin 0) \<and>
   old_bill (calculate default_inputs (snapshot 100 25)) = Fin 2800 \<and>
   py_ge (savings (calculate default_inputs (snapshot 100 25))) (Fin 0)"
proof -
  have h: "monthly_usage default_inputs = Fin 350 \<and> is_double 350 \<and> (0::rat) \<le> 350 \<and>
      tariff default_inputs = Fin 8 \<and> (0::rat) \<le> 8"
    by (simp add: default_inputs_def is_double_350)
  have k: "py_ge (monthly_production (calculate default_inputs (snapshot 100 25))) (Fin 0) \<and>
      old_bill (calculate default_inputs (snapshot 100 25)) = Fin 2800"
    by (simp add: full_cloud_values py_ge_def)
  from savings_identity_and_sign [of default_inputs "snapshot 100 25"] h k
  show ?thesis by blast
qed

lemma fl_overflow:
  assumes "2 ^ 1024 \<le> x"
  shows "fl x = PInf"
proof -
  have "rnd (2 ^ 1024) = 2 ^ 1024"
    by (simp add: rnd_eval [of 971] round_half_even_def Let_def)
  with rnd_mono [OF assms] show ?thesis
    by (simp add: fl_def Let_def)
qed

lemma is_double_2_1020: "is_double (2 ^ 1020)"
  by (simp add: is_double_def rnd_eval [of 968] round_half_even_def Let_def)

lemma tariff_irrelevant:
  "monthly_production (calculate (inp\<lparr>tariff := t\<rparr>) w) = monthly_production (calculate inp w)"
  "net_usage (calculate (inp\<lparr>tariff := t\<rparr>) w) = net_usage (calculate inp w)"
  by (simp_all add: calculate_def Let_def)

theorem savings_nan_on_overflow:
  "monthly_usage (default_inputs\<lparr>tariff := Fin (2 ^ 1020)\<rparr>) = Fin 350 \<and>
   tariff (default_inputs\<lparr>tariff := Fin (2 ^ 1020)\<rparr>) = Fin (2 ^ 1020) \<and>
   is_double (2 ^ 1020) \<and>
   py_ge (monthly_production
     (calculate (default_inputs\<lparr>tariff := Fin (2 ^ 1020)\<rparr>) (snapshot 100 25))) (Fin 0) \<and>
   savings (calculate (default_inputs\<lparr>tariff := Fin (2 ^ 1020)\<rparr>) (snapshot 100 25)) = NaN \<and>
   \<not> py_ge (savings
     (calculate (default_inputs\<lparr>tariff := Fin (2 ^ 1020)\<rparr>) (snapshot 100 25))) (Fin 0)"
proof -
  let ?i = "default_inputs\<lparr>tariff := Fin (2 ^ 1020)\<rparr>"
  have old: "old_bill (calculate ?i (snapshot 100 25)) = PInf"
    by (simp add: old_bill_calculate default_inputs_def fl_overflow)
  have new: "new_bill (calculate ?i (snapshot 100 25)) = PInf"
    unfolding new_bill_calculate tariff_irrelevant full_cloud_values
    by (simp add: fl_overflow)
  have sav: "savings (calculate ?i (snapshot 100 25)) = NaN"
    unfolding savings_calculate old new by simp
  have prod: "py_ge (monthly_production (calculate ?i (snapshot 100 25))) (Fin 0)"
    unfolding tariff_irrelevant full_cloud_values by (simp add: py_ge_def)
  show ?thesis
    unfolding sav using prod is_double_2_1020 by (simp add: default_inputs_def py_ge_def)
qed

lemma no_cloud_values:
  "monthly_production (calculate default_inputs (snapshot 0 25)) = Fin 750"
  "net_usage (calculate default_inputs (snapshot 0 25)) = Fin 0"
  "new_bill (calculate default_inputs (snapshot 0 25)) = Fin 0"
  by (simp_all add: calculate_def Let_def default_inputs_def snapshot_def lit_def py_max_def
      py_gt_def fl_vals)

text \<open>
  C4: the net usage is \<^verbatim>\<open>max(0, monthly_usage - monthly_production)\<close>: the float difference
  when that is greater than zero, and zero otherwise (also when the difference is nan). It is
  never negative. With a usage above the production the net usage is the rounded difference,
  which is positive; with a production of at least the usage the net usage is zero, the new
  bill is zero for every finite tariff, and for no tariff is the new bill negative.
\<close>

theorem net_usage_clamped_at_zero:
  "net_usage (calculate inp w) =
     (if py_gt (py_sub (monthly_usage inp) (monthly_production (calculate inp w))) (Fin 0)
      then py_sub (monthly_usage inp) (monthly_production (calculate inp w)) else Fin 0) \<and>
   py_ge (net_usage (calculate inp w)) (Fin 0) \<and>
   (\<forall>u m. monthly_usage inp = Fin u \<and> is_double u \<and>
      monthly_production (calculate inp w) = Fin m \<and> m < u \<longrightarrow>
      net_usage (calculate inp w) = fl (u - m) \<and>
      py_gt (net_usage (calculate inp w)) (Fin 0)) \<and>
   (py_ge (monthly_production (calculate inp w)) (monthly_usage inp) \<longrightarrow>
      net_usage (calculate inp w) = Fin 0 \<and>
      \<not> py_lt (new_bill (calculate inp w)) (Fin 0) \<and>
      (\<forall>t. tariff inp = Fin t \<longrightarrow> new_bill (calculate inp w) = Fin 0))"
proof (intro conjI impI allI)
  show "net_usage (calculate inp w) =
     (if py_gt (py_sub (monthly_usage inp) (monthly_production (calculate inp w))) (Fin 0)
      then py_sub (monthly_usage inp) (monthly_production (calculate inp w)) else Fin 0)"
    by (simp add: net_usage_calculate py_max_def)
  show "py_ge (net_usage (calculate inp w)) (Fin 0)"
    unfolding net_usage_calculate by (rule py_max_ge)
next
  fix u m
  assume h: "monthly_usage inp = Fin u \<and> is_double u \<and>
      monthly_production (calculate inp w) = Fin m \<and> m < u"
  then have "is_double m"
    by (intro monthly_production_double [of inp w]) simp
  with h have pos: "py_lt (Fin 0) (fl (u - m))"
    by (intro fl_difference_pos) simp_all
  with h show n: "net_usage (calculate inp w) = fl (u - m)"
    by (simp add: net_usage_calculate py_max_def py_gt_def)
  from pos show "py_gt (net_usage (calculate inp w)) (Fin 0)"
    unfolding n py_gt_def .
next
  assume "py_ge (monthly_production (calculate inp w)) (monthly_usage inp)"
  then have "py_le (monthly_usage inp) (monthly_production (calculate inp w))"
    by (simp add: py_ge_def)
  then show zero: "net_usage (calculate inp w) = Fin 0"
    unfolding net_usage_calculate by (rule py_max_sub_zero)
  show "\<not> py_lt (new_bill (calculate inp w)) (Fin 0)"
    unfolding new_bill_calculate zero by (rule py_mul_zero_not_neg)
  fix t
  assume "tariff inp = Fin t"
  with zero show "new_bill (calculate inp w) = Fin 0"
    by (simp add: new_bill_calculate fl_zero)
qed

theorem net_usage_clamped_at_zero_witness:
  "monthly_usage default_inputs = Fin 350 \<and> is_double 350 \<and>
   monthly_production (calculate default_inputs (snapshot 100 25))
     = Fin (5277655813324799 / 35184372088832) \<and>
   (5277655813324799 / 35184372088832 :: rat) < 350 \<and>
   net_usage (calculate default_inputs (snapshot 100 25))
     = fl (350 - 5277655813324799 / 35184372088832) \<and>
   net_usage (calculate default_inputs (snapshot 100 25))
     = Fin (7036874417766401 / 35184372088832) \<and>
   py_gt (net_usage (calculate default_inputs (snapshot 100 25))) (Fin 0) \<and>
   py_ge (monthly_production (calculate default_inputs (snapshot 0 25)))
     (monthly_usage default_inputs) \<and>
   tariff default_inputs = Fin 8 \<and>
   net_usage (calculate default_inputs (snapshot 0 25)) = Fin 0 \<and>
   \<not> py_lt (new_bill (calculate default_inputs (snapshot 0 25))) (Fin 0) \<and>
   new_bill (calculate default_inputs (snapshot 0 25)) = Fin 0"
proof -
  have u: "monthly_usage default_inputs = Fin 350 \<and> is_double 350 \<and>
      tariff default_inputs = Fin 8"
    by (simp add: default_inputs_def is_double_350)
  have m: "monthly_production (calculate default_inputs (snapshot 100 25))
      = Fin (5277655813324799 / 35184372088832) \<and>
      (5277655813324799 / 35184372088832 :: rat) < 350 \<and>
      net_usage (calculate default_inputs (snapshot 100 25))
      = Fin (7036874417766401 / 35184372088832)"
    by (simp add: full_cloud_values)
  have ge: "py_ge (monthly_production (calculate default_inputs (snapshot 0 25)))
      (monthly_usage default_inputs)"
    unfolding py_ge_def no_cloud_values by (simp add: default_inputs_def)
  from net_usage_clamped_at_zero [of default_inputs "snapshot 100 25"] u m
  have 1: "net_usage (calculate default_inputs (snapshot 100 25))
      = fl (350 - 5277655813324799 / 35184372088832) \<and>
      py_gt (net_usage (calculate default_inputs (snapshot 100 25))) (Fin 0)"
    by blast
  from net_usage_clamped_at_zero [of default_inputs "snapshot 0 25"] u ge
  have 2: "net_usage (calculate default_inputs (snapshot 0 25)) = Fin 0 \<and>
      \<not> py_lt (new_bill (calculate default_inputs (snapshot 0 25))) (Fin 0) \<and>
      new_bill (calculate default_inputs (snapshot 0 25)) = Fin 0"
    by blast
  from u m ge 1 2 show ?thesis by blast
qed

theorem new_bill_nan_at_infinite_tariff:
  "tariff (default_inputs\<lparr>tariff := PInf\<rparr>) = PInf \<and>
   py_gt (monthly_production (calculate (default_inputs\<lparr>tariff := PInf\<rparr>) (snapshot 0 25)))
     (monthly_usage (default_inputs\<lparr>tariff := PInf\<rparr>)) \<and>
   net_usage (calculate (default_inputs\<lparr>tariff := PInf\<rparr>) (snapshot 0 25)) = Fin 0 \<and>
   new_bill (calculate (default_inputs\<lparr>tariff := PInf\<rparr>) (snapshot 0 25)) = NaN \<and>
   new_bill (calculate (default_inputs\<lparr>tariff := PInf\<rparr>) (snapshot 0 25)) \<noteq> Fin 0"
proof -
  let ?i = "default_inputs\<lparr>tariff := PInf\<rparr>"
  have n: "net_usage (calculate ?i (snapshot 0 25)) = Fin 0"
    unfolding tariff_irrelevant no_cloud_values ..
  have "new_bill (calculate ?i (snapshot 0 25)) = NaN"
    unfolding new_bill_calculate n by simp
  moreover have "py_gt (monthly_production (calculate ?i (snapshot 0 25))) (monthly_usage ?i)"
    unfolding tariff_irrelevant no_cloud_values py_gt_def by (simp add: default_inputs_def)
  ultimately show ?thesis
    using n by simp
qed

lemma light_cloud_warm_values:
  "actual_power (calculate default_inputs (snapshot 1 30)) = Fin (2722425974745465 / 562949953421312)"
  "monthly_production (calculate default_inputs (snapshot 1 30)) = Fin (6380685878309683 / 8796093022208)"
  by (simp_all add: calculate_def Let_def default_inputs_def snapshot_def lit_def py_max_def
      py_gt_def fl_vals)

text \<open>
  C8: the monthly production is the actual power times 5, times 30, each product rounded to a
  double; it is the actual power times 150 up to these two roundings: for a finite actual power
  \<open>a\<close> in the normal range it is finite and within \<open>150 \<bar>a\<bar> / 2^51\<close> of \<open>150 a\<close>, and it
  is 0 when the actual power is 0.
\<close>

theorem monthly_production_is_150_times_power_up_to_rounding:
  "monthly_production (calculate inp w) =
     py_mul (py_mul (actual_power (calculate inp w)) (Fin 5)) (Fin 30) \<and>
   (\<forall>a. actual_power (calculate inp w) = Fin a \<and> 1 / 2 ^ 1022 \<le> \<bar>a\<bar> \<and> \<bar>a\<bar> \<le> 2 ^ 1000 \<longrightarrow>
      close_to (monthly_production (calculate inp w)) (a * 150) (\<bar>a\<bar> * 150 / 2 ^ 51)) \<and>
   (actual_power (calculate inp w) = Fin 0 \<longrightarrow> monthly_production (calculate inp w) = Fin 0)"
proof (intro conjI allI impI)
  show "monthly_production (calculate inp w) =
      py_mul (py_mul (actual_power (calculate inp w)) (Fin 5)) (Fin 30)"
    by (simp add: monthly_production_calculate daily_production_calculate)
next
  fix a
  assume "actual_power (calculate inp w) = Fin a \<and> 1 / 2 ^ 1022 \<le> \<bar>a\<bar> \<and> \<bar>a\<bar> \<le> 2 ^ 1000"
  then show "close_to (monthly_production (calculate inp w)) (a * 150) (\<bar>a\<bar> * 150 / 2 ^ 51)"
    using monthly_production_error by blast
next
  assume "actual_power (calculate inp w) = Fin 0"
  then show "monthly_production (calculate inp w) = Fin 0"
    by (simp add: monthly_production_calculate daily_production_calculate fl_zero)
qed

theorem monthly_production_is_150_times_power_up_to_rounding_witness:
  "actual_power (calculate default_inputs (snapshot 1 30))
     = Fin (2722425974745465 / 562949953421312) \<and>
   1 / 2 ^ 1022 \<le> \<bar>2722425974745465 / 562949953421312 :: rat\<bar> \<and>
   \<bar>2722425974745465 / 562949953421312 :: rat\<bar> \<le> 2 ^ 1000 \<and>
   close_to (monthly_production (calculate default_inputs (snapshot 1 30)))
     (2722425974745465 / 562949953421312 * 150)
     (\<bar>2722425974745465 / 562949953421312\<bar> * 150 / 2 ^ 51)"
proof -
  have h: "actual_power (calculate default_inputs (snapshot 1 30))
       = Fin (2722425974745465 / 562949953421312) \<and>
     1 / 2 ^ 1022 \<le> \<bar>2722425974745465 / 562949953421312 :: rat\<bar> \<and>
     \<bar>2722425974745465 / 562949953421312 :: rat\<bar> \<le> 2 ^ 1000"
    by (simp add: light_cloud_warm_values)
  from monthly_production_is_150_times_power_up_to_rounding
    [of default_inputs "snapshot 1 30"] h
  show ?thesis by blast
qed

theorem monthly_production_not_150_times_power:
  "actual_power (calculate default_inputs (snapshot 1 30))
     = Fin (2722425974745465 / 562949953421312) \<and>
   monthly_production (calculate default_inputs (snapshot 1 30))
     = Fin (6380685878309683 / 8796093022208) \<and>
   py_mul (actual_power (calculate default_inputs (snapshot 1 30))) (Fin 150)
     = Fin (1595171469577421 / 2199023255552) \<and>
   monthly_production (calculate default_inputs (snapshot 1 30))
     \<noteq> py_mul (actual_power (calculate default_inputs (snapshot 1 30))) (Fin 150) \<and>
   monthly_production (calculate default_inputs (snapshot 1 30))
     \<noteq> Fin (2722425974745465 / 562949953421312 * 150)"
  by (simp add: light_cloud_warm_values fl_vals)

text \<open>
  C2: with a rated power of at least \<open>2^-900\<close> and a cloud cover between 0 and 100, a cloud
  cover that is larger by at least \<open>2^-40\<close> gives a strictly smaller actual power as long
  as the temperature is below 225 degrees, and a temperature between 25 and 225 degrees that
  is higher by at least \<open>2^-40\<close> gives a strictly smaller actual power. Without the
  separation, and for every rated power that is not negative, the actual power never
  increases: in the cloud cover as long as the temperature is at most 225 degrees, in the
  temperature for any two temperatures.
\<close>

theorem actual_power_monotone:
  "(\<forall>p c c' t. panel_power inp = Fin p \<and> is_double p \<and> 1 / 2 ^ 900 \<le> p \<and>
      clouds w = Fin c \<and> clouds w' = Fin c' \<and> 0 \<le> c \<and> c + 1 / 2 ^ 40 \<le> c' \<and> c' \<le> 100 \<and>
      temp_c w = Fin t \<and> temp_c w' = Fin t \<and> is_double t \<and> t < 225 \<longrightarrow>
      py_lt (actual_power (calculate inp w')) (actual_power (calculate inp w))) \<and>
   (\<forall>p c t t'. panel_power inp = Fin p \<and> is_double p \<and> 1 / 2 ^ 900 \<le> p \<and>
      clouds w = Fin c \<and> clouds w' = Fin c \<and> 0 \<le> c \<and> c \<le> 100 \<and>
      temp_c w = Fin t \<and> temp_c w' = Fin t' \<and> 25 \<le> t \<and> t + 1 / 2 ^ 40 \<le> t' \<and> t' \<le> 225 \<longrightarrow>
      py_lt (actual_power (calculate inp w')) (actual_power (calculate inp w))) \<and>
   (\<forall>p c c'. panel_power inp = Fin p \<and> is_double p \<and> 0 \<le> p \<and>
      clouds w = Fin c \<and> clouds w' = Fin c' \<and> 0 \<le> c \<and> c \<le> c' \<and> c' \<le> 100 \<and>
      temp_c w' = temp_c w \<and> py_le (temp_c w) (Fin 225) \<longrightarrow>
      py_le (actual_power (calculate inp w')) (actual_power (calculate inp w))) \<and>
   (\<forall>p c t t'. panel_power inp = Fin p \<and> is_double p \<and> 0 \<le> p \<and>
      clouds w = Fin c \<and> clouds w' = Fin c \<and> 0 \<le> c \<and> c \<le> 100 \<and>
      temp_c w = Fin t \<and> temp_c w' = Fin t' \<and> is_double t \<and> is_double t' \<and> t \<le> t' \<longrightarrow>
      py_le (actual_power (calculate inp w')) (actual_power (calculate inp w)))"
  using actual_power_strict_clouds [of inp _ w _ w'] actual_power_strict_temp [of inp _ w _ w']
    actual_power_antimono_clouds [of inp _ w _ w'] actual_power_antimono_temp [of inp _ w _ w']
  by blast

lemma is_double_30_40: "is_double 30" "is_double 40"
  by (simp_all add: is_double_def rnd_eval [of "- 48"] rnd_eval [of "- 47"]
      round_half_even_def Let_def)

theorem actual_power_monotone_witness:
  "panel_power default_inputs = Fin 5 \<and> is_double 5 \<and> (1::rat) / 2 ^ 900 \<le> 5 \<and> (0::rat) \<le> 5 \<and>
   clouds (snapshot 20 30) = Fin 20 \<and> clouds (snapshot 21 30) = Fin 21 \<and>
   (0::rat) \<le> 20 \<and> (20::rat) + 1 / 2 ^ 40 \<le> 21 \<and> (21::rat) \<le> 100 \<and>
   temp_c (snapshot 20 30) = Fin 30 \<and> temp_c (snapshot 21 30) = Fin 30 \<and>
   is_double 30 \<and> (30::rat) < 225 \<and>
   py_lt (actual_power (calculate default_inputs (snapshot 21 30)))
     (actual_power (calculate default_inputs (snapshot 20 30))) \<and>
   clouds (snapshot 20 31) = Fin 20 \<and> (20::rat) \<le> 100 \<and> temp_c (snapshot 20 31) = Fin 31 \<and>
   (25::rat) \<le> 30 \<and> (30::rat) + 1 / 2 ^ 40 \<le> 31 \<and> (31::rat) \<le> 225 \<and>
   py_lt (actual_power (calculate default_inputs (snapshot 20 31)))
     (actual_power (calculate default_inputs (snapshot 20 30))) \<and>
   clouds (snapshot 60 30) = Fin 60 \<and> (20::rat) \<le> 60 \<and> (60::rat) \<le> 100 \<and>
   temp_c (snapshot 60 30) = temp_c (snapshot 20 30) \<and>
   py_le (temp_c (snapshot 20 30)) (Fin 225) \<and>
   py_le (actual_power (calculate default_inputs (snapshot 60 30)))
     (actual_power (calculate default_inputs (snapshot 20 30))) \<and>
   clouds (snapshot 20 40) = Fin 20 \<and> temp_c (snapshot 20 40) = Fin 40 \<and>
   is_double 40 \<and> (30::rat) \<le> 40 \<and>
   py_le (actual_power (calculate default_inputs (snapshot 20 40)))
     (actual_power (calculate default_inputs (snapshot 20 30)))"
proof -
  have p: "panel_power default_inputs = Fin 5 \<and> is_double 5 \<and> (1::rat) / 2 ^ 900 \<le> 5 \<and>
      (0::rat) \<le> 5"
    by (simp add: default_inputs_def is_double_5)
  have sc: "clouds (snapshot 20 30) = Fin 20 \<and> clouds (snapshot 21 30) = Fin 21 \<and>
      (0::rat) \<le> 20 \<and> (20::rat) + 1 / 2 ^ 40 \<le> 21 \<and> (21::rat) \<le> 100 \<and>
      temp_c (snapshot 20 30) = Fin 30 \<and> temp_c (snapshot 21 30) = Fin 30 \<and>
      is_double 30 \<and> (30::rat) < 225"
    by (simp add: is_double_30_40)
  have st: "clouds (snapshot 20 31) = Fin 20 \<and> (20::rat) \<le> 100 \<and>
      temp_c (snapshot 20 31) = Fin 31 \<and>
      (25::rat) \<le> 30 \<and> (30::rat) + 1 / 2 ^ 40 \<le> 31 \<and> (31::rat) \<le> 225"
    by simp
  have c: "clouds (snapshot 60 30) = Fin 60 \<and> (20::rat) \<le> 60 \<and> (60::rat) \<le> 100 \<and>
      temp_c (snapshot 60 30) = temp_c (snapshot 20 30) \<and>
      py_le (temp_c (snapshot 20 30)) (Fin 225)"
    by simp
  have t: "clouds (snapshot 20 40) = Fin 20 \<and> temp_c (snapshot 20 40) = Fin 40 \<and>
      is_double 40 \<and> (30::rat) \<le> 40"
    by (simp add: is_double_30_40)
  from actual_power_monotone [of default_inputs "snapshot 20 30" "snapshot 21 30"] p sc
  have 1: "py_lt (actual_power (calculate default_inputs (snapshot 21 30)))
      (actual_power (calculate default_inputs (snapshot 20 30)))"
    by blast
  from actual_power_monotone [of default_inputs "snapshot 20 30" "snapshot 20 31"] p sc st
  have 2: "py_lt (actual_power (calculate default_inputs (snapshot 20 31)))
      (actual_power (calculate default_inputs (snapshot 20 30)))"
    by blast
  from actual_power_monotone [of default_inputs "snapshot 20 30" "snapshot 60 30"] p sc c
  have 3: "py_le (actual_power (calculate default_inputs (snapshot 60 30)))
      (actual_power (calculate default_inputs (snapshot 20 30)))"
    by blast
  from actual_power_monotone [of default_inputs "snapshot 20 30" "snapshot 20 40"] p sc st t
  have 4: "py_le (actual_power (calculate default_inputs (snapshot 20 40)))
      (actual_power (calculate default_inputs (snapshot 20 30)))"
    by blast
  from p sc st c t 1 2 3 4 show ?thesis by blast
qed

lemma hot_values:
  "actual_power (calculate default_inputs (snapshot 0 300)) = Fin (- (15 / 8))"
  "actual_power (calculate default_inputs (snapshot 50 300)) = Fin (- (9 / 8))"
  by (simp_all add: calculate_def Let_def default_inputs_def snapshot_def lit_def py_max_def
      py_gt_def fl_vals)

lemma plateau_values:
  "actual_power (calculate default_inputs (snapshot (1 / 2 ^ 60) 25)) = Fin 5"
  "actual_power (calculate default_inputs (snapshot 0 25)) = Fin 5"
  "actual_power (calculate default_inputs (snapshot 0 26))
     = Fin (2800676018271027 / 562949953421312)"
  "actual_power (calculate default_inputs (snapshot 0 (26 + 1 / 2 ^ 48)))
     = Fin (2800676018271027 / 562949953421312)"
  by (simp_all add: calculate_def Let_def default_inputs_def snapshot_def lit_def py_max_def
      py_gt_def fl_vals)

lemma is_double_plateau: "is_double (1 / 2 ^ 60)" "is_double (26 + 1 / 2 ^ 48)"
  by (simp_all add: is_double_def rnd_eval [of "- 112"] rnd_eval [of "- 48"]
      round_half_even_def Let_def)

lemma is_double_smallest: "is_double (1 / 2 ^ 1074)"
  by (simp add: is_double_def rnd_eval [of "- 1074"] round_half_even_def Let_def)

lemma smallest_power_values:
  "actual_power (calculate (default_inputs\<lparr>panel_power := Fin (1 / 2 ^ 1074)\<rparr>)
     (snapshot 0 25)) = Fin (1 / 2 ^ 1074)"
  "actual_power (calculate (default_inputs\<lparr>panel_power := Fin (1 / 2 ^ 1074)\<rparr>)
     (snapshot 50 25)) = Fin (1 / 2 ^ 1074)"
  "actual_power (calculate (default_inputs\<lparr>panel_power := Fin (1 / 2 ^ 1074)\<rparr>)
     (snapshot 0 26)) = Fin (1 / 2 ^ 1074)"
  "actual_power (calculate (default_inputs\<lparr>panel_power := Fin (1 / 2 ^ 1074)\<rparr>)
     (snapshot 0 27)) = Fin (1 / 2 ^ 1074)"
  by (rule smallest_power_plateau [of _ _ 0 25] smallest_power_plateau [of _ _ 50 25]
      smallest_power_plateau [of _ _ 0 26] smallest_power_plateau [of _ _ 0 27]; simp)+

lemma far_values:
  "actual_power (calculate default_inputs (snapshot 0 9007199254741020))
     = Fin (- (3602879701896319 / 16))"
  "actual_power (calculate default_inputs (snapshot 0 9007199254741022))
     = Fin (- (3602879701896319 / 16))"
  by (simp_all add: calculate_def Let_def default_inputs_def snapshot_def lit_def py_max_def
      py_gt_def fl_vals)

lemma is_double_far: "is_double 9007199254741020" "is_double 9007199254741022"
  by (simp_all add: is_double_def rnd_eval [of 1] round_half_even_def Let_def)

theorem actual_power_not_strictly_monotone:
  "py_lt (actual_power (calculate default_inputs (snapshot 0 300)))
     (actual_power (calculate default_inputs (snapshot 50 300))) \<and>
   is_double (1 / 2 ^ 60) \<and> (0::rat) < 1 / 2 ^ 60 \<and>
   actual_power (calculate default_inputs (snapshot (1 / 2 ^ 60) 25))
     = actual_power (calculate default_inputs (snapshot 0 25)) \<and>
   is_double (26 + 1 / 2 ^ 48) \<and> (26::rat) < 26 + 1 / 2 ^ 48 \<and>
   actual_power (calculate default_inputs (snapshot 0 (26 + 1 / 2 ^ 48)))
     = actual_power (calculate default_inputs (snapshot 0 26)) \<and>
   is_double (1 / 2 ^ 1074) \<and> (0::rat) < 1 / 2 ^ 1074 \<and>
   actual_power (calculate (default_inputs\<lparr>panel_power := Fin (1 / 2 ^ 1074)\<rparr>)
     (snapshot 50 25))
     = actual_power (calculate (default_inputs\<lparr>panel_power := Fin (1 / 2 ^ 1074)\<rparr>)
     (snapshot 0 25)) \<and>
   actual_power (calculate (default_inputs\<lparr>panel_power := Fin (1 / 2 ^ 1074)\<rparr>)
     (snapshot 0 27))
     = actual_power (calculate (default_inputs\<lparr>panel_power := Fin (1 / 2 ^ 1074)\<rparr>)
     (snapshot 0 26)) \<and>
   is_double 9007199254741020 \<and> is_double 9007199254741022 \<and>
   (9007199254741020::rat) + 1 / 2 ^ 40 \<le> 9007199254741022 \<and>
   actual_power (calculate default_inputs (snapshot 0 9007199254741022))
     = actual_power (calculate default_inputs (snapshot 0 9007199254741020))"
  unfolding hot_values plateau_values smallest_power_values far_values
  using is_double_plateau is_double_smallest is_double_far by simp

text \<open>
  C7: the efficiencies are not clamped: the cloud efficiency is negative for every cloud
  cover above 125 and the temperature efficiency for every temperature above 225. With a
  rated power of at least \<open>2^-900\<close> (so that no product underflows to zero) the actual power
  is negative when exactly one of the two is the case and the other input is below its
  threshold, and positive when both are.
\<close>

theorem unclamped_efficiencies:
  "(\<forall>c. clouds w = Fin c \<and> is_double c \<and> 125 < c \<longrightarrow>
      py_lt (cloud_efficiency (calculate inp w)) (Fin 0)) \<and>
   (\<forall>t. temp_c w = Fin t \<and> is_double t \<and> 225 < t \<longrightarrow>
      py_lt (temp_efficiency (calculate inp w)) (Fin 0)) \<and>
   (\<forall>p c t. panel_power inp = Fin p \<and> 1 / 2 ^ 900 \<le> p \<and>
      clouds w = Fin c \<and> is_double c \<and> temp_c w = Fin t \<and> is_double t \<and>
      (125 < c \<and> t < 225 \<or> c < 125 \<and> 225 < t) \<longrightarrow>
      py_lt (actual_power (calculate inp w)) (Fin 0)) \<and>
   (\<forall>p c t. panel_power inp = Fin p \<and> 1 / 2 ^ 900 \<le> p \<and>
      clouds w = Fin c \<and> is_double c \<and> temp_c w = Fin t \<and> is_double t \<and>
      125 < c \<and> 225 < t \<longrightarrow>
      py_lt (Fin 0) (actual_power (calculate inp w)))"
proof (intro conjI allI impI)
  fix c
  assume "clouds w = Fin c \<and> is_double c \<and> 125 < c"
  then have "py_le (cloud_efficiency (calculate inp w)) (Fin (- (1 / 2 ^ 52)))"
    using cloud_efficiency_above_125 by blast
  then show "py_lt (cloud_efficiency (calculate inp w)) (Fin 0)"
    by (rule py_le_lt_trans) simp
next
  fix t
  assume "temp_c w = Fin t \<and> is_double t \<and> 225 < t"
  then have "py_le (temp_efficiency (calculate inp w)) (Fin (- (1 / 2 ^ 52)))"
    using temp_efficiency_above_225 by blast
  then show "py_lt (temp_efficiency (calculate inp w)) (Fin 0)"
    by (rule py_le_lt_trans) simp
next
  fix p c t
  assume "panel_power inp = Fin p \<and> 1 / 2 ^ 900 \<le> p \<and>
      clouds w = Fin c \<and> is_double c \<and> temp_c w = Fin t \<and> is_double t \<and>
      (125 < c \<and> t < 225 \<or> c < 125 \<and> 225 < t)"
  then show "py_lt (actual_power (calculate inp w)) (Fin 0)"
    using actual_power_neg_clouds [of inp p w c t] actual_power_neg_temp [of inp p w c t]
    by blast
next
  fix p c t
  assume "panel_power inp = Fin p \<and> 1 / 2 ^ 900 \<le> p \<and>
      clouds w = Fin c \<and> is_double c \<and> temp_c w = Fin t \<and> is_double t \<and>
      125 < c \<and> 225 < t"
  then show "py_lt (Fin 0) (actual_power (calculate inp w))"
    using actual_power_pos_both [of inp p w c t] by blast
qed

lemma is_double_more:
  "is_double 25" "is_double 50" "is_double 150" "is_double 200" "is_double 250" "is_double 300"
  by (simp_all add: is_double_def rnd_eval [of "- 48"] rnd_eval [of "- 47"] rnd_eval [of "- 45"]
      rnd_eval [of "- 44"] round_half_even_def Let_def)

theorem unclamped_efficiencies_witness:
  "panel_power default_inputs = Fin 5 \<and> (1 / 2 ^ 900 :: rat) \<le> 5 \<and>
   clouds (snapshot 150 25) = Fin 150 \<and> is_double 150 \<and> (125::rat) < 150 \<and>
   temp_c (snapshot 150 25) = Fin 25 \<and> is_double 25 \<and> (25::rat) < 225 \<and>
   py_lt (cloud_efficiency (calculate default_inputs (snapshot 150 25))) (Fin 0) \<and>
   py_lt (actual_power (calculate default_inputs (snapshot 150 25))) (Fin 0) \<and>
   clouds (snapshot 50 250) = Fin 50 \<and> is_double 50 \<and> (50::rat) < 125 \<and>
   temp_c (snapshot 50 250) = Fin 250 \<and> is_double 250 \<and> (225::rat) < 250 \<and>
   py_lt (temp_efficiency (calculate default_inputs (snapshot 50 250))) (Fin 0) \<and>
   py_lt (actual_power (calculate default_inputs (snapshot 50 250))) (Fin 0) \<and>
   clouds (snapshot 200 300) = Fin 200 \<and> is_double 200 \<and> (125::rat) < 200 \<and>
   temp_c (snapshot 200 300) = Fin 300 \<and> is_double 300 \<and> (225::rat) < 300 \<and>
   py_lt (Fin 0) (actual_power (calculate default_inputs (snapshot 200 300)))"
proof -
  have p: "panel_power default_inputs = Fin 5 \<and> (1 / 2 ^ 900 :: rat) \<le> 5"
    by (simp add: default_inputs_def)
  have a: "clouds (snapshot 150 25) = Fin 150 \<and> is_double 150 \<and> (125::rat) < 150 \<and>
      temp_c (snapshot 150 25) = Fin 25 \<and> is_double 25 \<and> (25::rat) < 225"
    by (simp add: is_double_more)
  have b: "clouds (snapshot 50 250) = Fin 50 \<and> is_double 50 \<and> (50::rat) < 125 \<and>
      temp_c (snapshot 50 250) = Fin 250 \<and> is_double 250 \<and> (225::rat) < 250"
    by (simp add: is_double_more)
  have c: "clouds (snapshot 200 300) = Fin 200 \<and> is_double 200 \<and> (125::rat) < 200 \<and>
      temp_c (snapshot 200 300) = Fin 300 \<and> is_double 300 \<and> (225::rat) < 300"
    by (simp add: is_double_more)
  from unclamped_efficiencies [of "snapshot 150 25" default_inputs] p a
  have 1: "py_lt (cloud_efficiency (calculate default_inputs (snapshot 150 25))) (Fin 0) \<and>
      py_lt (actual_power (calculate default_inputs (snapshot 150 25))) (Fin 0)"
    by blast
  from unclamped_efficiencies [of "snapshot 50 250" default_inputs] p b
  have 2: "py_lt (temp_efficiency (calculate default_inputs (snapshot 50 250))) (Fin 0) \<and>
      py_lt (actual_power (calculate default_inputs (snapshot 50 250))) (Fin 0)"
    by blast
  from unclamped_efficiencies [of "snapshot 200 300" default_inputs] p c
  have 3: "py_lt (Fin 0) (actual_power (calculate default_inputs (snapshot 200 300)))"
    by blast
  from p a b c 1 2 3 show ?thesis by blast
qed

lemma both_negative_values:
  "cloud_efficiency (calculate default_inputs (snapshot 200 300))
     = Fin (- (1351079888211149 / 2251799813685248))"
  "temp_efficiency (calculate default_inputs (snapshot 200 300)) = Fin (- (3 / 8))"
  "actual_power (calculate default_inputs (snapshot 200 300))
     = Fin (5066549580791809 / 4503599627370496)"
  by (simp_all add: calculate_def Let_def default_inputs_def snapshot_def lit_def py_max_def
      py_gt_def fl_vals)

lemma underflow_values:
  "cloud_efficiency (calculate (default_inputs\<lparr>panel_power := Fin (1 / 2 ^ 1074)\<rparr>)
     (snapshot 130 25)) = Fin (- (45035996273705 / 1125899906842624))"
  "temp_efficiency (calculate (default_inputs\<lparr>panel_power := Fin (1 / 2 ^ 1074)\<rparr>)
     (snapshot 130 25)) = Fin 1"
  by (simp_all add: cloud_efficiency_calculate temp_efficiency_calculate heat_loss_calculate
      lit_def py_max_def py_gt_def fl_vals)

lemma underflow_power:
  "actual_power (calculate (default_inputs\<lparr>panel_power := Fin (1 / 2 ^ 1074)\<rparr>)
     (snapshot 130 25)) = Fin 0"
proof -
  have "fl (1 / 2 ^ 1074 * - (45035996273705 / 1125899906842624)) = Fin 0"
    by (rule fl_underflow) simp
  then show ?thesis
    unfolding actual_power_calculate underflow_values
    by (simp add: default_inputs_def fl_zero)
qed

theorem negative_power_fails:
  "clouds (snapshot 200 300) = Fin 200 \<and> (125::rat) < 200 \<and>
   py_lt (cloud_efficiency (calculate default_inputs (snapshot 200 300))) (Fin 0) \<and>
   py_lt (temp_efficiency (calculate default_inputs (snapshot 200 300))) (Fin 0) \<and>
   \<not> py_lt (actual_power (calculate default_inputs (snapshot 200 300))) (Fin 0) \<and>
   clouds (snapshot 130 25) = Fin 130 \<and> (125::rat) < 130 \<and>
   is_double (1 / 2 ^ 1074) \<and> (0::rat) < 1 / 2 ^ 1074 \<and>
   py_lt (cloud_efficiency (calculate (default_inputs\<lparr>panel_power := Fin (1 / 2 ^ 1074)\<rparr>)
     (snapshot 130 25))) (Fin 0) \<and>
   \<not> py_lt (actual_power (calculate (default_inputs\<lparr>panel_power := Fin (1 / 2 ^ 1074)\<rparr>)
     (snapshot 130 25))) (Fin 0)"
  unfolding both_negative_values underflow_values underflow_power
  using is_double_smallest by simp

end
